theory Spec2Isabelle
  imports Main "HOL-Library.Word" "HOL-Library.Sublist"
begin

unbundle bit_operations_syntax

section \<open>JavaScript values\<close>

text \<open>
  The values the transaction pipeline of \<^verbatim>\<open>eosjs-api.ts\<close> inspects with
  \<^verbatim>\<open>typeof\<close> and by truthiness. A number is an integer or \<^verbatim>\<open>NaN\<close>: block
  numbers, counts and seconds are integers below \<open>2 ^ 53\<close>, where the arithmetic of
  doubles is exact; fractions, infinities and the negative zero are left out.
\<close>

datatype jsnumber = Num int | NaN

datatype jsval =
    JUndefined
  | JNull
  | JBool bool
  | JNumber jsnumber
  | JString string
  | JArray "jsval list"
  | JObject "(string \<times> jsval) list"

text \<open>\<^verbatim>\<open>!!v\<close>\<close>

fun truthy :: "jsval \<Rightarrow> bool" where
  "truthy JUndefined = False"
| "truthy JNull = False"
| "truthy (JBool b) = b"
| "truthy (JNumber (Num n)) = (n \<noteq> 0)"
| "truthy (JNumber NaN) = False"
| "truthy (JString s) = (s \<noteq> [])"
| "truthy (JArray xs) = True"
| "truthy (JObject kvs) = True"

text \<open>\<^verbatim>\<open>typeof v\<close>\<close>

fun typeof :: "jsval \<Rightarrow> string" where
  "typeof JUndefined = ''undefined''"
| "typeof JNull = ''object''"
| "typeof (JBool b) = ''boolean''"
| "typeof (JNumber n) = ''number''"
| "typeof (JString s) = ''string''"
| "typeof (JArray xs) = ''object''"
| "typeof (JObject kvs) = ''object''"

text \<open>Reading a property that may be absent gives \<^verbatim>\<open>undefined\<close>.\<close>

fun get_prop :: "jsval option \<Rightarrow> jsval" where
  "get_prop None = JUndefined"
| "get_prop (Some v) = v"

text \<open>\<^verbatim>\<open>a - b\<close> and \<^verbatim>\<open>a <= b\<close> on numbers; every comparison with \<^verbatim>\<open>NaN\<close> is false.\<close>

fun js_minus :: "jsnumber \<Rightarrow> jsnumber \<Rightarrow> jsnumber" where
  "js_minus (Num a) (Num b) = Num (a - b)"
| "js_minus a b = NaN"

fun js_le :: "jsnumber \<Rightarrow> jsnumber \<Rightarrow> bool" where
  "js_le (Num a) (Num b) = (a \<le> b)"
| "js_le a b = False"

text \<open>A number that may be \<^verbatim>\<open>undefined\<close>, as an operand of arithmetic.\<close>

fun to_number :: "jsnumber option \<Rightarrow> jsnumber" where
  "to_number None = NaN"
| "to_number (Some n) = n"

fun truthy_number :: "jsnumber option \<Rightarrow> bool" where
  "truthy_number None = False"
| "truthy_number (Some n) = truthy (JNumber n)"

section \<open>Errors and effects\<close>

text \<open>
  A thrown value is an error object with its message. A promise that rejects and a
  function that throws are both the left injection of the result.
\<close>

datatype error = Error string | TypeError string

fun message :: "error \<Rightarrow> string" where
  "message (Error m) = m"
| "message (TypeError m) = m"

fun set_message :: "string \<Rightarrow> error \<Rightarrow> error" where
  "set_message m (Error _) = Error m"
| "set_message m (TypeError _) = TypeError m"

type_synonym ('a, 's) eff = "'s \<Rightarrow> (error + 'a) \<times> 's"

definition returnE :: "'a \<Rightarrow> ('a, 's) eff" where
  "returnE x s = (Inr x, s)"

definition throwE :: "error \<Rightarrow> ('a, 's) eff" where
  "throwE e s = (Inl e, s)"

definition bindE :: "('a, 's) eff \<Rightarrow> ('a \<Rightarrow> ('b, 's) eff) \<Rightarrow> ('b, 's) eff" where
  "bindE m f s = (case m s of (Inl e, s') \<Rightarrow> (Inl e, s') | (Inr x, s') \<Rightarrow> f x s')"

text \<open>\<^verbatim>\<open>try { m } catch (e) { h e }\<close>\<close>

definition catchE :: "('a, 's) eff \<Rightarrow> (error \<Rightarrow> ('a, 's) eff) \<Rightarrow> ('a, 's) eff" where
  "catchE m h s = (case m s of (Inl e, s') \<Rightarrow> h e s' | (Inr x, s') \<Rightarrow> (Inr x, s'))"

text \<open>A pure computation that may throw, inside the effectful ones.\<close>

definition liftE :: "error + 'a \<Rightarrow> ('a, 's) eff" where
  "liftE r s = (r, s)"

subsection \<open>Tasks run together\<close>

text \<open>
  \<^verbatim>\<open>Promise.all(xs.map(f))\<close> for an \<^verbatim>\<open>async\<close> function \<open>f\<close>. Every call of \<open>f\<close> runs at
  once, in the order of the list, up to the first promise it has to wait for: whatever it
  reads from the caches it reads then, and the requests it makes are made then, before
  any task goes on (\<open>startAll\<close>; what a task is left waiting for is a value of \<open>'p\<close>).
  The tasks then go on (\<open>finishAll\<close>). A task that waits for no answer goes on with the
  job queue and settles at the round given by the number of its awaits; a task that
  waits for an answer goes on when the answer is there. Answers are taken to come in the
  order of their requests, after the tasks that wait for none have settled, and a task
  that has its answer runs to its end before the next answer is handled. So the effects
  on the state are those of the continuations in list order (the continuations of tasks
  of different rounds write to different accounts, or the same value, so that their
  order among each other does not show in the state). The whole rejects with the error
  of the task that fails first: the one of the least round, and among those the first
  of the list. It fulfils with the values in list order when no task fails. The state
  returned is the one reached when every task has settled.
\<close>

fun startAll :: "('a \<Rightarrow> 's \<Rightarrow> 'p \<times> 's) \<Rightarrow> 'a list \<Rightarrow> 's \<Rightarrow> 'p list \<times> 's" where
  "startAll start [] s = ([], s)"
| "startAll start (x # xs) s =
     (case start x s of
        (p, s') \<Rightarrow> (case startAll start xs s' of (ps, s'') \<Rightarrow> (p # ps, s'')))"

fun finishAll ::
  "('a \<Rightarrow> 'p \<Rightarrow> ('b, 's) eff) \<Rightarrow> ('a \<times> 'p) list \<Rightarrow> 's \<Rightarrow> (error + 'b) list \<times> 's" where
  "finishAll finish [] s = ([], s)"
| "finishAll finish ((x, p) # xps) s =
     (case finish x p s of
        (r, s') \<Rightarrow> (case finishAll finish xps s' of (rs, s'') \<Rightarrow> (r # rs, s'')))"

text \<open>The rejection of the least round, the first of the list among equals.\<close>

fun firstRejection :: "(nat \<times> (error + 'b)) list \<Rightarrow> (nat \<times> error) option" where
  "firstRejection [] = None"
| "firstRejection ((k, Inr v) # rest) = firstRejection rest"
| "firstRejection ((k, Inl e) # rest) =
     (case firstRejection rest of
        None \<Rightarrow> Some (k, e)
      | Some (k', e') \<Rightarrow> if k' < k then Some (k', e') else Some (k, e))"

fun fulfilled :: "(error + 'b) list \<Rightarrow> 'b list" where
  "fulfilled [] = []"
| "fulfilled (Inr v # rs) = v # fulfilled rs"
| "fulfilled (Inl e # rs) = fulfilled rs"

definition allE ::
  "('a \<Rightarrow> 's \<Rightarrow> 'p \<times> 's) \<Rightarrow> ('a \<Rightarrow> 'p \<Rightarrow> nat) \<Rightarrow> ('a \<Rightarrow> 'p \<Rightarrow> ('b, 's) eff)
     \<Rightarrow> 'a list \<Rightarrow> ('b list, 's) eff" where
  "allE start round finish xs s =
     (case startAll start xs s of
        (ps, s1) \<Rightarrow>
          (case finishAll finish (zip xs ps) s1 of
             (rs, s2) \<Rightarrow>
               (case firstRejection (zip (map (\<lambda>(x, p). round x p) (zip xs ps)) rs) of
                  Some (k, e) \<Rightarrow> (Inl e, s2)
                | None \<Rightarrow> (Inr (fulfilled rs), s2))))"

text \<open>The round at which a task that waits for an answer settles.\<close>

definition afterAnswer :: nat where
  "afterAnswer = 4"

section \<open>Data model\<close>

type_synonym bytes = "8 word list"

record action =
  account :: string
  name :: string
  authorization :: "(string \<times> string) list"
  data :: jsval

text \<open>
  The transaction object handed to \<^verbatim>\<open>transact\<close>. A field is \<open>None\<close> when the object
  has no such property; \<open>other_fields\<close> holds the remaining properties.
\<close>

record transaction =
  expiration :: "jsval option"
  ref_block_num :: "jsval option"
  ref_block_prefix :: "jsval option"
  context_free_actions :: "action list option"
  actions :: "action list option"
  context_free_data :: "bytes list option"
  other_fields :: "(string \<times> jsval) list"

record transactConfig =
  broadcast :: "bool option"
  sign :: "bool option"
  requiredKeys :: "string list option"
  compression :: "bool option"
  blocksBehind :: "jsnumber option"
  useLastIrreversible :: "bool option"
  expireSeconds :: "jsnumber option"

record pushTransactionArgs =
  signatures :: "string list"
  pta_compression :: "int option"
  serializedTransaction :: bytes
  serializedContextFreeData :: "bytes option"

record signatureProviderArgs =
  spa_chainId :: "string option"
  spa_requiredKeys :: "string list"
  spa_serializedTransaction :: bytes
  spa_serializedContextFreeData :: "bytes option"
  spa_abis :: "(string \<times> bytes) list"

record getInfoResult =
  chain_id :: string
  head_block_num :: int
  last_irreversible_block_num :: int

text \<open>The TAPOS fields \<^verbatim>\<open>ser.transactionHeader\<close> computes from a reference block.\<close>

record taposHeader =
  hdr_expiration :: jsval
  hdr_ref_block_num :: jsval
  hdr_ref_block_prefix :: jsval

text \<open>
  The response of \<^verbatim>\<open>send_transaction\<close>, as far as \<^verbatim>\<open>transact\<close> looks into it. An
  optional field is \<open>None\<close> when the property is absent (or falsy, for \<open>processed\<close>,
  \<open>action_traces\<close> and \<open>act\<close>, which are only tested by truthiness).
\<close>

record traceAct =
  act_account :: string
  act_name :: string
  act_data :: "jsval option"
  act_other :: "(string \<times> jsval) list"

record actionTrace =
  act :: "traceAct option"
  return_value :: "jsval option"
  trace_other :: "(string \<times> jsval) list"

record processedResult =
  action_traces :: "actionTrace list option"
  processed_other :: "(string \<times> jsval) list"

record transactResult =
  processed :: "processedResult option"
  result_other :: "(string \<times> jsval) list"

text \<open>The decode hooks of a WASM-interpreted ABI; each returns the long name and the value.\<close>

record wasmAbi =
  action_args_bin_to_json :: "string \<Rightarrow> bytes \<Rightarrow> error + string \<times> jsval"
  action_ret_bin_to_json :: "string \<Rightarrow> bytes \<Rightarrow> error + string \<times> jsval"

text \<open>A structured ABI: its version string, its action table, and the rest of the document.\<close>

record 'b abi_def =
  abi_version :: string
  abi_actions :: "(string \<times> string) list"
  abi_rest :: 'b

record 'b cachedAbi =
  rawAbi :: bytes
  abi :: "'b abi_def"

record 'ty contract =
  types :: "string \<Rightarrow> 'ty option"
  contract_actions :: "string \<Rightarrow> 'ty option"

section \<open>The serial buffer\<close>

text \<open>
  Modelled from the spec: \<^verbatim>\<open>SerialBuffer\<close> of \<^verbatim>\<open>eosjs-serialize.ts\<close>, which is not
  among the sources. The spec names its operations (varint push and pop, byte-array push)
  and the format they give: a byte array is length-prefixed, a string is the
  length-prefixed bytes of its text. The buffer is the bytes written so far and a read
  position; the varint is the little-endian base-128 one of the wire format.
\<close>

record serialBuffer =
  array :: bytes
  readPos :: nat

definition newSerialBuffer :: "bytes \<Rightarrow> serialBuffer" where
  "newSerialBuffer bs = \<lparr>array = bs, readPos = 0\<rparr>"

text \<open>Modelled from the spec: \<^verbatim>\<open>pushArray\<close>, which appends bytes as they are.\<close>

definition pushArray :: "bytes \<Rightarrow> serialBuffer \<Rightarrow> serialBuffer" where
  "pushArray bs b = b\<lparr>array := array b @ bs\<rparr>"

text \<open>
  Modelled from the spec: the bytes that \<^verbatim>\<open>pushVaruint32\<close> (the varint push) appends
  for a 32-bit value: seven bits a byte from the low end, with the high bit set on every
  byte but the last.
\<close>

function varuint32 :: "32 word \<Rightarrow> bytes" where
  "varuint32 v =
     (if drop_bit 7 v \<noteq> 0 then (0x80 OR ucast (v AND 0x7f)) # varuint32 (drop_bit 7 v)
      else [ucast v])"
  by pat_completeness auto
termination
proof (relation "measure unat")
  show "wf (measure (unat :: 32 word \<Rightarrow> nat))" by simp
next
  fix v :: "32 word"
  assume nz: "drop_bit 7 v \<noteq> 0"
  have eq: "unat (drop_bit 7 v) = unat v div 2 ^ 7"
    by (simp add: drop_bit_eq_div unat_div)
  have "unat v \<noteq> 0"
    using nz by (metis drop_bit_of_0 unat_eq_0)
  then have "unat v div 2 ^ 7 < unat v" by simp
  with eq show "(drop_bit 7 v, v) \<in> measure unat" by simp
qed

declare varuint32.simps [simp del]

definition pushVaruint32 :: "32 word \<Rightarrow> serialBuffer \<Rightarrow> serialBuffer" where
  "pushVaruint32 v b = pushArray (varuint32 v) b"

text \<open>
  Modelled from the spec: \<^verbatim>\<open>pushBytes\<close> (the byte-array push): the length as a
  varuint32, then the bytes.
\<close>

definition pushBytes :: "bytes \<Rightarrow> serialBuffer \<Rightarrow> serialBuffer" where
  "pushBytes bs b = pushArray bs (pushVaruint32 (of_nat (length bs)) b)"

definition asUint8Array :: "serialBuffer \<Rightarrow> bytes" where
  "asUint8Array b = array b"

definition restartRead :: "serialBuffer \<Rightarrow> serialBuffer" where
  "restartRead b = b\<lparr>readPos := 0\<rparr>"

text \<open>
  Modelled from the spec: \<^verbatim>\<open>getVaruint32\<close> (the varint pop). The value is
  accumulated seven bits at a time until a byte without the continuation bit; a read past
  the end throws.
\<close>

fun getVaruint32_from :: "bytes \<Rightarrow> 32 word \<Rightarrow> nat \<Rightarrow> (32 word \<times> bytes) option" where
  "getVaruint32_from [] v sh = None"
| "getVaruint32_from (b # bs) v sh =
     (let v' = v OR push_bit (sh mod 32) (ucast (b AND 0x7f))
      in if b AND 0x80 = 0 then Some (v', bs) else getVaruint32_from bs v' (sh + 7))"

definition getVaruint32 :: "serialBuffer \<Rightarrow> error + 32 word \<times> serialBuffer" where
  "getVaruint32 b =
     (case getVaruint32_from (drop (readPos b) (array b)) 0 0 of
        None \<Rightarrow> Inl (Error ''Read past end of buffer'')
      | Some (v, rest) \<Rightarrow> Inr (v, b\<lparr>readPos := length (array b) - length rest\<rparr>))"

text \<open>
  Modelled from the spec: \<^verbatim>\<open>getUint8Array\<close> and \<^verbatim>\<open>getBytes\<close>, which read a given
  number of bytes and a length-prefixed byte array.
\<close>

definition getUint8Array :: "nat \<Rightarrow> serialBuffer \<Rightarrow> error + bytes \<times> serialBuffer" where
  "getUint8Array len b =
     (if readPos b + len > length (array b) then Inl (Error ''Read past end of buffer'')
      else Inr (take len (drop (readPos b) (array b)), b\<lparr>readPos := readPos b + len\<rparr>))"

definition getBytes :: "serialBuffer \<Rightarrow> error + bytes \<times> serialBuffer" where
  "getBytes b =
     (case getVaruint32 b of
        Inl e \<Rightarrow> Inl e
      | Inr (len, b') \<Rightarrow> getUint8Array (unat len) b')"

text \<open>
  Modelled from the spec: the text decoder and encoder the buffer is given. Text is
  modelled by its bytes: a character of a \<open>string\<close> is one byte, which is the text
  itself for ASCII, as the version strings of ABIs are; bytes above \<open>0x7f\<close> are kept as
  they are and not decoded as UTF-8.
\<close>

definition textDecode :: "bytes \<Rightarrow> string" where
  "textDecode bs = map (\<lambda>b. char_of (unat b)) bs"

definition textEncode :: "string \<Rightarrow> bytes" where
  "textEncode s = map (\<lambda>c. of_nat (of_char c)) s"

text \<open>
  Modelled from the spec: \<^verbatim>\<open>getString\<close> and \<^verbatim>\<open>pushString\<close>, a string as the
  length-prefixed bytes of its text.
\<close>

definition getString :: "serialBuffer \<Rightarrow> error + string \<times> serialBuffer" where
  "getString b =
     (case getBytes b of
        Inl e \<Rightarrow> Inl e
      | Inr (bs, b') \<Rightarrow> Inr (textDecode bs, b'))"

definition pushString :: "string \<Rightarrow> serialBuffer \<Rightarrow> serialBuffer" where
  "pushString s b = pushBytes (textEncode s) b"

section \<open>Collaborators and the state of an \<^verbatim>\<open>Api\<close>\<close>

text \<open>
  The remote node, the ABI, authority and signature providers answer from a state \<open>'w\<close>
  of their own, which every call may change. The serializer's tables (\<open>'ty\<close> is a codec
  of \<^verbatim>\<open>ser.Type\<close>) and the pure helpers of \<^verbatim>\<open>eosjs-serialize.ts\<close> are parameters as
  well.
\<close>

record ('w, 'ty, 'b) env =
  get_info :: "'w \<Rightarrow> (error + getInfoResult) \<times> 'w"
  get_block :: "jsnumber \<Rightarrow> 'w \<Rightarrow> (error + jsval) \<times> 'w"
  get_block_header_state :: "jsnumber \<Rightarrow> 'w \<Rightarrow> (error + jsval) \<times> 'w"
  send_transaction :: "pushTransactionArgs \<Rightarrow> 'w \<Rightarrow> (error + transactResult) \<times> 'w"
  getRawAbi :: "string \<Rightarrow> 'w \<Rightarrow> (error + bytes) \<times> 'w"
  getAvailableKeys :: "'w \<Rightarrow> (error + string list) \<times> 'w"
  getRequiredKeys :: "transaction \<Rightarrow> string list \<Rightarrow> 'w \<Rightarrow> (error + string list) \<times> 'w"
  signatureProvider_sign :: "signatureProviderArgs \<Rightarrow> 'w \<Rightarrow> (error + pushTransactionArgs) \<times> 'w"
  wasmAbiProvider :: "(string \<Rightarrow> wasmAbi option) option"
  supported_prefixes :: "string list"
  abi_body_decode :: "bytes \<Rightarrow> error + (string \<times> string) list \<times> 'b"
  abi_body_encode :: "(string \<times> string) list \<times> 'b \<Rightarrow> error + bytes"
  getTypesFromAbi :: "'b abi_def \<Rightarrow> error + (string \<Rightarrow> 'ty option)"
  getType :: "(string \<Rightarrow> 'ty option) \<Rightarrow> string \<Rightarrow> error + 'ty"
  serializeAction :: "'ty contract \<Rightarrow> action \<Rightarrow> error + action"
  transaction_serialize :: "transaction \<Rightarrow> error + bytes"
  transactionHeader :: "jsval \<Rightarrow> jsnumber \<Rightarrow> error + taposHeader"
  hexToUint8Array :: "jsval \<Rightarrow> error + bytes"

text \<open>The remote calls, in the order they were made.\<close>

datatype call =
    GetInfo
  | GetBlock jsnumber
  | GetBlockHeaderState jsnumber
  | GetRawAbi string
  | GetAvailableKeys
  | GetRequiredKeys
  | Sign
  | SendTransaction

record ('w, 'ty, 'b) api =
  chainId :: "string option"
  contracts :: "string \<Rightarrow> 'ty contract option"
  cachedAbis :: "string \<Rightarrow> 'b cachedAbi option"
  world :: 'w
  calls :: "call list"

definition remote ::
  "call \<Rightarrow> ('w \<Rightarrow> (error + 'a) \<times> 'w) \<Rightarrow> ('a, ('w, 'ty, 'b) api) eff" where
  "remote c f s =
     (case f (world s) of (r, w') \<Rightarrow> (r, s\<lparr>world := w', calls := calls s @ [c]\<rparr>))"

section \<open>ABI documents\<close>

text \<open>
  Modelled from the spec: \<^verbatim>\<open>ser.supportedAbiVersion\<close>, not among the sources. A
  version is supported when it starts with one of a small set of prefixes.
\<close>

definition supportedAbiVersion :: "('w, 'ty, 'b) env \<Rightarrow> string \<Rightarrow> bool" where
  "supportedAbiVersion env v = list_ex (\<lambda>p. prefix p v) (supported_prefixes env)"

text \<open>
  Modelled from the spec: the codec \<^verbatim>\<open>abiTypes.get('abi_def')\<close>, built from
  \<^verbatim>\<open>abi.abi.json\<close>, not among the sources. The binary form is the length-prefixed
  version string followed by the schema-defined encoding of the rest, which is a
  parameter (\<open>abi_body_decode\<close>, \<open>abi_body_encode\<close>).
\<close>

definition abi_def_deserialize ::
  "('w, 'ty, 'b) env \<Rightarrow> serialBuffer \<Rightarrow> error + 'b abi_def" where
  "abi_def_deserialize env b =
     (case getString b of
        Inl e \<Rightarrow> Inl e
      | Inr (v, b') \<Rightarrow>
          (case abi_body_decode env (drop (readPos b') (array b')) of
             Inl e \<Rightarrow> Inl e
           | Inr (acts, rest) \<Rightarrow>
               Inr \<lparr>abi_version = v, abi_actions = acts, abi_rest = rest\<rparr>))"

definition abi_def_serialize ::
  "('w, 'ty, 'b) env \<Rightarrow> serialBuffer \<Rightarrow> 'b abi_def \<Rightarrow> error + serialBuffer" where
  "abi_def_serialize env b a =
     (case abi_body_encode env (abi_actions a, abi_rest a) of
        Inl e \<Rightarrow> Inl e
      | Inr bs \<Rightarrow> Inr (pushArray bs (pushString (abi_version a) b)))"

definition rawAbiToJson :: "('w, 'ty, 'b) env \<Rightarrow> bytes \<Rightarrow> error + 'b abi_def" where
  "rawAbiToJson env raw =
     (let buffer = newSerialBuffer raw in
      case getString buffer of
        Inl e \<Rightarrow> Inl e
      | Inr (v, buffer') \<Rightarrow>
          if \<not> supportedAbiVersion env v then Inl (Error ''Unsupported abi version'')
          else abi_def_deserialize env (restartRead buffer'))"

definition jsonToRawAbi :: "('w, 'ty, 'b) env \<Rightarrow> 'b abi_def \<Rightarrow> error + bytes" where
  "jsonToRawAbi env jsonAbi =
     (case abi_def_serialize env (newSerialBuffer []) jsonAbi of
        Inl e \<Rightarrow> Inl e
      | Inr buffer \<Rightarrow>
          (case getString buffer of
             Inl e \<Rightarrow> Inl e
           | Inr (v, buffer') \<Rightarrow>
               if \<not> supportedAbiVersion env v then Inl (Error ''Unsupported abi version'')
               else Inr (asUint8Array buffer')))"

section \<open>The ABI cache and the contract resolver\<close>

definition getCachedAbi ::
  "('w, 'ty, 'b) env \<Rightarrow> string \<Rightarrow> bool \<Rightarrow> ('b cachedAbi, ('w, 'ty, 'b) api) eff" where
  "getCachedAbi env accountName reload s =
     (case (if reload then None else cachedAbis s accountName) of
        Some c \<Rightarrow> (Inr c, s)
      | None \<Rightarrow>
          bindE
            (catchE
               (bindE (remote (GetRawAbi accountName) (getRawAbi env accountName))
                  (\<lambda>raw. bindE (liftE (rawAbiToJson env raw))
                     (\<lambda>a. returnE \<lparr>rawAbi = raw, abi = a\<rparr>)))
               (\<lambda>e. throwE
                  (set_message (''fetching abi for '' @ accountName @ '': '' @ message e) e)))
            (\<lambda>c s'. (Inr c, s'\<lparr>cachedAbis := (cachedAbis s')(accountName \<mapsto> c)\<rparr>))
            s)"

definition getAbi ::
  "('w, 'ty, 'b) env \<Rightarrow> string \<Rightarrow> bool \<Rightarrow> ('b abi_def, ('w, 'ty, 'b) api) eff" where
  "getAbi env accountName reload =
     bindE (getCachedAbi env accountName reload) (\<lambda>c. returnE (abi c))"

text \<open>
  \<^verbatim>\<open>getCachedAbi\<close> as a task run together with others. Up to its first wait it reads
  the cache and, on a miss or a reload, makes the request; what is left is to decode the
  answer and to store the entry. Run by itself it is \<open>getCachedAbi\<close>
  (lemma \<open>getCachedAbi_split\<close>).
\<close>

datatype 'b abiPending = AbiCached "'b cachedAbi" | AbiRequested "error + bytes"

definition getCachedAbi_start ::
  "('w, 'ty, 'b) env \<Rightarrow> string \<Rightarrow> bool \<Rightarrow> ('w, 'ty, 'b) api
     \<Rightarrow> 'b abiPending \<times> ('w, 'ty, 'b) api" where
  "getCachedAbi_start env accountName reload s =
     (case (if reload then None else cachedAbis s accountName) of
        Some c \<Rightarrow> (AbiCached c, s)
      | None \<Rightarrow>
          (case remote (GetRawAbi accountName) (getRawAbi env accountName) s of
             (r, s') \<Rightarrow> (AbiRequested r, s')))"

definition getCachedAbi_finish ::
  "('w, 'ty, 'b) env \<Rightarrow> string \<Rightarrow> 'b abiPending \<Rightarrow> ('b cachedAbi, ('w, 'ty, 'b) api) eff" where
  "getCachedAbi_finish env accountName p =
     (case p of
        AbiCached c \<Rightarrow> returnE c
      | AbiRequested r \<Rightarrow>
          bindE
            (catchE
               (bindE (liftE r)
                  (\<lambda>raw. bindE (liftE (rawAbiToJson env raw))
                     (\<lambda>a. returnE \<lparr>rawAbi = raw, abi = a\<rparr>)))
               (\<lambda>e. throwE
                  (set_message (''fetching abi for '' @ accountName @ '': '' @ message e) e)))
            (\<lambda>c s'. (Inr c, s'\<lparr>cachedAbis := (cachedAbis s')(accountName \<mapsto> c)\<rparr>)))"

definition abiRound :: "'b abiPending \<Rightarrow> nat" where
  "abiRound p = (case p of AbiCached c \<Rightarrow> 1 | AbiRequested r \<Rightarrow> afterAnswer)"

text \<open>\<^verbatim>\<open>this.wasmAbiProvider && this.wasmAbiProvider.wasmAbis.get(account)\<close>\<close>

definition wasmAbiFor :: "('w, 'ty, 'b) env \<Rightarrow> string \<Rightarrow> wasmAbi option" where
  "wasmAbiFor env a = (case wasmAbiProvider env of None \<Rightarrow> None | Some m \<Rightarrow> m a)"

text \<open>The elements of a \<^verbatim>\<open>Set\<close> built from a list, in insertion order.\<close>

definition uniqueAccounts :: "string list \<Rightarrow> string list" where
  "uniqueAccounts xs = foldl (\<lambda>acc a. if a \<in> set acc then acc else acc @ [a]) [] xs"

definition getTransactionAbis ::
  "('w, 'ty, 'b) env \<Rightarrow> transaction \<Rightarrow> bool
     \<Rightarrow> ((string \<times> bytes) list, ('w, 'ty, 'b) api) eff" where
  "getTransactionAbis env t reload =
     (case actions t of
        None \<Rightarrow> throwE (TypeError ''Cannot read properties of undefined'')
      | Some acts \<Rightarrow>
          (let all_actions = (case context_free_actions t of None \<Rightarrow> [] | Some c \<Rightarrow> c) @ acts;
               accounts = map account all_actions
           in allE (\<lambda>a. getCachedAbi_start env a reload) (\<lambda>a p. abiRound p)
                (\<lambda>a p. bindE (getCachedAbi_finish env a p) (\<lambda>c. returnE (a, rawAbi c)))
                (filter (\<lambda>a. case wasmAbiFor env a of None \<Rightarrow> True | Some w \<Rightarrow> False)
                   (uniqueAccounts accounts))))"

fun contractActions ::
  "('w, 'ty, 'b) env \<Rightarrow> (string \<Rightarrow> 'ty option) \<Rightarrow> (string \<times> string) list
     \<Rightarrow> (string \<Rightarrow> 'ty option) \<Rightarrow> error + (string \<Rightarrow> 'ty option)" where
  "contractActions env tys [] m = Inr m"
| "contractActions env tys ((n, t) # rest) m =
     (case getType env tys t of
        Inl e \<Rightarrow> Inl e
      | Inr ty \<Rightarrow> contractActions env tys rest (m(n \<mapsto> ty)))"

definition getContract ::
  "('w, 'ty, 'b) env \<Rightarrow> string \<Rightarrow> bool \<Rightarrow> ('ty contract, ('w, 'ty, 'b) api) eff" where
  "getContract env accountName reload s =
     (case (if reload then None else contracts s accountName) of
        Some c \<Rightarrow> (Inr c, s)
      | None \<Rightarrow>
          bindE (getAbi env accountName reload)
            (\<lambda>a. bindE (liftE (getTypesFromAbi env a))
               (\<lambda>tys. bindE (liftE (contractActions env tys (abi_actions a) Map.empty))
                  (\<lambda>acts s'.
                     (let result = \<lparr>types = tys, contract_actions = acts\<rparr>
                      in (Inr result, s'\<lparr>contracts := (contracts s')(accountName \<mapsto> result)\<rparr>)))))
            s)"

text \<open>
  \<^verbatim>\<open>getContract\<close> as a task run together with others. Up to its first wait it reads
  the cache of contracts and, on a miss or a reload, starts \<^verbatim>\<open>getCachedAbi\<close>; what is
  left is to finish that, to build the contract from the ABI and to store it. Run by
  itself it is \<open>getContract\<close> (lemma \<open>getContract_split\<close>).
\<close>

datatype ('ty, 'b) contractPending =
    ContractCached "'ty contract"
  | ContractAwaitsAbi "'b abiPending"

definition buildContract :: "('w, 'ty, 'b) env \<Rightarrow> 'b abi_def \<Rightarrow> error + 'ty contract" where
  "buildContract env a =
     (case getTypesFromAbi env a of
        Inl e \<Rightarrow> Inl e
      | Inr tys \<Rightarrow>
          (case contractActions env tys (abi_actions a) Map.empty of
             Inl e \<Rightarrow> Inl e
           | Inr acts \<Rightarrow> Inr \<lparr>types = tys, contract_actions = acts\<rparr>))"

definition getContract_start ::
  "('w, 'ty, 'b) env \<Rightarrow> string \<Rightarrow> bool \<Rightarrow> ('w, 'ty, 'b) api
     \<Rightarrow> ('ty, 'b) contractPending \<times> ('w, 'ty, 'b) api" where
  "getContract_start env accountName reload s =
     (case (if reload then None else contracts s accountName) of
        Some c \<Rightarrow> (ContractCached c, s)
      | None \<Rightarrow>
          (case getCachedAbi_start env accountName reload s of
             (p, s') \<Rightarrow> (ContractAwaitsAbi p, s')))"

definition getContract_finish ::
  "('w, 'ty, 'b) env \<Rightarrow> string \<Rightarrow> ('ty, 'b) contractPending
     \<Rightarrow> ('ty contract, ('w, 'ty, 'b) api) eff" where
  "getContract_finish env accountName p =
     (case p of
        ContractCached c \<Rightarrow> returnE c
      | ContractAwaitsAbi q \<Rightarrow>
          bindE (getCachedAbi_finish env accountName q)
            (\<lambda>c. bindE (liftE (buildContract env (abi c)))
               (\<lambda>result s'.
                  (Inr result, s'\<lparr>contracts := (contracts s')(accountName \<mapsto> result)\<rparr>))))"

section \<open>Actions and transactions\<close>

text \<open>
  The task of \<^verbatim>\<open>serializeActions\<close> for one action. An action of an account with a WASM
  ABI is returned at once. Otherwise the task starts \<^verbatim>\<open>getContract\<close> and, when the
  contract is there, serializes the action. With the contract cached that is the first
  round of the job queue; with the ABI cached the contract is built at the second round
  and the action serialized at the third; with the ABI requested all of it waits for the
  answer.
\<close>

definition actionStart ::
  "('w, 'ty, 'b) env \<Rightarrow> action \<Rightarrow> ('w, 'ty, 'b) api
     \<Rightarrow> ('ty, 'b) contractPending option \<times> ('w, 'ty, 'b) api" where
  "actionStart env a s =
     (case wasmAbiFor env (account a) of
        Some w \<Rightarrow> (None, s)
      | None \<Rightarrow>
          (case getContract_start env (account a) False s of (p, s') \<Rightarrow> (Some p, s')))"

definition actionFinish ::
  "('w, 'ty, 'b) env \<Rightarrow> action \<Rightarrow> ('ty, 'b) contractPending option
     \<Rightarrow> (action, ('w, 'ty, 'b) api) eff" where
  "actionFinish env a p =
     (case p of
        None \<Rightarrow> returnE a
      | Some q \<Rightarrow>
          bindE (getContract_finish env (account a) q)
            (\<lambda>c. liftE (serializeAction env c a)))"

definition actionRound ::
  "('w, 'ty, 'b) env \<Rightarrow> action \<Rightarrow> ('ty, 'b) contractPending option \<Rightarrow> nat" where
  "actionRound env a p =
     (case p of
        None \<Rightarrow> 0
      | Some (ContractCached c) \<Rightarrow> 1
      | Some (ContractAwaitsAbi (AbiCached c)) \<Rightarrow>
          (case buildContract env (abi c) of Inl e \<Rightarrow> 2 | Inr k \<Rightarrow> 3)
      | Some (ContractAwaitsAbi (AbiRequested r)) \<Rightarrow> afterAnswer)"

definition serializeActions ::
  "('w, 'ty, 'b) env \<Rightarrow> action list option \<Rightarrow> (action list, ('w, 'ty, 'b) api) eff" where
  "serializeActions env acts =
     (case acts of
        None \<Rightarrow> throwE (TypeError ''Cannot read properties of undefined'')
      | Some as \<Rightarrow> allE (actionStart env) (actionRound env) (actionFinish env) as)"

definition transaction_defaults :: "(string \<times> jsval) list" where
  "transaction_defaults =
     [(''max_net_usage_words'', JNumber (Num 0)),
      (''max_cpu_usage_ms'', JNumber (Num 0)),
      (''delay_sec'', JNumber (Num 0)),
      (''transaction_extensions'', JArray [])]"

text \<open>The defaults, overridden by every property the transaction has.\<close>

definition serializeTransaction :: "('w, 'ty, 'b) env \<Rightarrow> transaction \<Rightarrow> error + bytes" where
  "serializeTransaction env t =
     transaction_serialize env
       (t\<lparr>context_free_actions :=
            Some (case context_free_actions t of None \<Rightarrow> [] | Some c \<Rightarrow> c),
          actions := Some (case actions t of None \<Rightarrow> [] | Some a \<Rightarrow> a),
          other_fields :=
            filter (\<lambda>(k, v). map_of (other_fields t) k = None) transaction_defaults
              @ other_fields t\<rparr>)"

definition serializeContextFreeData :: "bytes list option \<Rightarrow> bytes option" where
  "serializeContextFreeData contextFreeData =
     (case contextFreeData of
        None \<Rightarrow> None
      | Some ds \<Rightarrow>
          if length ds = 0 then None
          else Some (asUint8Array
                 (fold pushBytes ds (pushVaruint32 (of_nat (length ds)) (newSerialBuffer [])))))"

section \<open>TAPOS\<close>

definition tryGetBlockHeaderState ::
  "('w, 'ty, 'b) env \<Rightarrow> jsnumber \<Rightarrow> (jsval, ('w, 'ty, 'b) api) eff" where
  "tryGetBlockHeaderState env taposBlockNumber =
     catchE
       (remote (GetBlockHeaderState taposBlockNumber)
          (get_block_header_state env taposBlockNumber))
       (\<lambda>e. remote (GetBlock taposBlockNumber) (get_block env taposBlockNumber))"

text \<open>\<^verbatim>\<open>{ ...header, ...transaction }\<close>: a property of the transaction wins.\<close>

definition merge_header :: "taposHeader \<Rightarrow> transaction \<Rightarrow> transaction" where
  "merge_header h t =
     t\<lparr>expiration := Some (case expiration t of None \<Rightarrow> hdr_expiration h | Some v \<Rightarrow> v),
       ref_block_num :=
         Some (case ref_block_num t of None \<Rightarrow> hdr_ref_block_num h | Some v \<Rightarrow> v),
       ref_block_prefix :=
         Some (case ref_block_prefix t of None \<Rightarrow> hdr_ref_block_prefix h | Some v \<Rightarrow> v)\<rparr>"

definition generateTapos ::
  "('w, 'ty, 'b) env \<Rightarrow> getInfoResult option \<Rightarrow> transaction \<Rightarrow> jsnumber option
     \<Rightarrow> bool option \<Rightarrow> jsnumber \<Rightarrow> (transaction, ('w, 'ty, 'b) api) eff" where
  "generateTapos env info t blocksBehind' useLastIrreversible' expireSeconds' =
     bindE (case info of None \<Rightarrow> remote GetInfo (get_info env) | Some i \<Rightarrow> returnE i)
       (\<lambda>info.
          let taposBlockNumber =
                (if useLastIrreversible' = Some True
                 then Num (last_irreversible_block_num info)
                 else js_minus (Num (head_block_num info)) (to_number blocksBehind'))
          in bindE
               (if js_le taposBlockNumber (Num (last_irreversible_block_num info))
                then remote (GetBlock taposBlockNumber) (get_block env taposBlockNumber)
                else tryGetBlockHeaderState env taposBlockNumber)
               (\<lambda>refBlock.
                  bindE (liftE (transactionHeader env refBlock expireSeconds'))
                    (\<lambda>h. returnE (merge_header h t))))"

definition hasRequiredTaposFields :: "transaction \<Rightarrow> bool" where
  "hasRequiredTaposFields t =
     (truthy (get_prop (expiration t))
      \<and> typeof (get_prop (ref_block_num t)) = ''number''
      \<and> typeof (get_prop (ref_block_prefix t)) = ''number'')"

section \<open>Decoding the traces of a broadcast\<close>

text \<open>
  The two \<^verbatim>\<open>try\<close> blocks of \<^verbatim>\<open>transact\<close>: a hook that throws, or a hex string that
  does not convert, leaves the trace as it was.
\<close>

definition decodeActionData ::
  "('w, 'ty, 'b) env \<Rightarrow> wasmAbi \<Rightarrow> string \<Rightarrow> actionTrace \<Rightarrow> actionTrace" where
  "decodeActionData env wabi nm at =
     (case act at of
        None \<Rightarrow> at
      | Some a \<Rightarrow>
          (case act_data a of
             None \<Rightarrow> at
           | Some d \<Rightarrow>
               (case hexToUint8Array env d of
                  Inl e \<Rightarrow> at
                | Inr bs \<Rightarrow>
                    (case action_args_bin_to_json wabi nm bs of
                       Inl e \<Rightarrow> at
                     | Inr (long_name, args) \<Rightarrow>
                         at\<lparr>act := Some (a\<lparr>act_name := long_name, act_data := Some args\<rparr>)\<rparr>))))"

definition decodeReturnValue ::
  "('w, 'ty, 'b) env \<Rightarrow> wasmAbi \<Rightarrow> string \<Rightarrow> actionTrace \<Rightarrow> actionTrace" where
  "decodeReturnValue env wabi nm at =
     (case return_value at of
        None \<Rightarrow> at
      | Some rv \<Rightarrow>
          (case hexToUint8Array env rv of
             Inl e \<Rightarrow> at
           | Inr bs \<Rightarrow>
               (case action_ret_bin_to_json wabi nm bs of
                  Inl e \<Rightarrow> at
                | Inr (long_name, ret) \<Rightarrow>
                    at\<lparr>act := map_option (\<lambda>a. a\<lparr>act_name := long_name\<rparr>) (act at),
                       return_value := Some ret\<rparr>)))"

definition decodeTrace :: "('w, 'ty, 'b) env \<Rightarrow> actionTrace \<Rightarrow> actionTrace" where
  "decodeTrace env at =
     (case act at of
        None \<Rightarrow> at
      | Some a \<Rightarrow>
          (case wasmAbiFor env (act_account a) of
             None \<Rightarrow> at
           | Some wabi \<Rightarrow>
               decodeReturnValue env wabi (act_name a)
                 (decodeActionData env wabi (act_name a) at)))"

definition decodeTraces :: "('w, 'ty, 'b) env \<Rightarrow> transactResult \<Rightarrow> transactResult" where
  "decodeTraces env result =
     (case wasmAbiProvider env of
        None \<Rightarrow> result
      | Some m \<Rightarrow>
          (case processed result of
             None \<Rightarrow> result
           | Some p \<Rightarrow>
               (case action_traces p of
                  None \<Rightarrow> result
                | Some ats \<Rightarrow>
                    result\<lparr>processed :=
                      Some (p\<lparr>action_traces := Some (map (decodeTrace env) ats)\<rparr>)\<rparr>)))"

section \<open>\<^verbatim>\<open>transact\<close>\<close>

datatype transactOutcome = Response transactResult | Args pushTransactionArgs

definition configError1 :: error where
  "configError1 = Error ''Use either blocksBehind or useLastIrreversible''"

definition configError2 :: error where
  "configError2 = Error ''Required configuration or TAPOS fields are not present''"

text \<open>\<^verbatim>\<open>if (!this.chainId) { info = await this.rpc.get_info(); this.chainId = info.chain_id; }\<close>\<close>

definition ensureChainId ::
  "('w, 'ty, 'b) env \<Rightarrow> (getInfoResult option, ('w, 'ty, 'b) api) eff" where
  "ensureChainId env s =
     (if chainId s = None \<or> chainId s = Some []
      then bindE (remote GetInfo (get_info env))
             (\<lambda>info s'. (Inr (Some info), s'\<lparr>chainId := Some (chain_id info)\<rparr>)) s
      else (Inr None, s))"

text \<open>The keys to sign with, asked from the providers when the caller gave none.\<close>

definition resolveRequiredKeys ::
  "('w, 'ty, 'b) env \<Rightarrow> transaction \<Rightarrow> string list option
     \<Rightarrow> (string list, ('w, 'ty, 'b) api) eff" where
  "resolveRequiredKeys env t requiredKeys' =
     (case requiredKeys' of
        Some ks \<Rightarrow> returnE ks
      | None \<Rightarrow>
          bindE (remote GetAvailableKeys (getAvailableKeys env))
            (\<lambda>availableKeys. remote GetRequiredKeys (getRequiredKeys env t availableKeys)))"

definition transact ::
  "('w, 'ty, 'b) env \<Rightarrow> transaction \<Rightarrow> transactConfig
     \<Rightarrow> (transactOutcome, ('w, 'ty, 'b) api) eff" where
  "transact env t0 cfg =
     (if blocksBehind cfg \<noteq> None \<and> useLastIrreversible cfg = Some True
      then throwE configError1
      else
        bindE (ensureChainId env) (\<lambda>info.
        bindE (if (blocksBehind cfg \<noteq> None \<or> useLastIrreversible cfg = Some True)
                  \<and> truthy_number (expireSeconds cfg)
               then generateTapos env info t0 (blocksBehind cfg) (useLastIrreversible cfg)
                      (to_number (expireSeconds cfg))
               else returnE t0) (\<lambda>t1.
        if \<not> hasRequiredTaposFields t1 then throwE configError2
        else
        bindE (getTransactionAbis env t1 False) (\<lambda>abis.
        bindE (serializeActions env
                 (Some (case context_free_actions t1 of None \<Rightarrow> [] | Some c \<Rightarrow> c))) (\<lambda>cfa.
        bindE (serializeActions env (actions t1)) (\<lambda>acts.
        let t2 = t1\<lparr>context_free_actions := Some cfa, actions := Some acts\<rparr> in
        bindE (liftE (serializeTransaction env t2)) (\<lambda>st.
        let scfd = serializeContextFreeData (context_free_data t2);
            args0 = \<lparr>signatures = [], pta_compression = None,
                     serializedTransaction = st, serializedContextFreeData = scfd\<rparr>;
            args1 = (if compression cfg = Some True then args0\<lparr>pta_compression := Some 1\<rparr>
                     else args0)
        in
        bindE (if sign cfg \<noteq> Some False
               then bindE (resolveRequiredKeys env t2 (requiredKeys cfg)) (\<lambda>ks. \<lambda>s.
                      remote Sign
                        (signatureProvider_sign env
                           \<lparr>spa_chainId = chainId s, spa_requiredKeys = ks,
                            spa_serializedTransaction = st,
                            spa_serializedContextFreeData = scfd, spa_abis = abis\<rparr>) s)
               else returnE args1) (\<lambda>pushArgs.
        if broadcast cfg \<noteq> Some False
        then bindE (remote SendTransaction (send_transaction env pushArgs))
               (\<lambda>result. returnE (Response (decodeTraces env result)))
        else returnE (Args pushArgs)))))))))"

section \<open>Post-processing an outcome\<close>

text \<open>
  \<open>post K m\<close> runs \<open>m\<close> and maps its outcome through \<open>K\<close>. It relates two runs of a
  pipeline that differ only in their last step.
\<close>

definition post ::
  "((error + 'a) \<times> 's \<Rightarrow> (error + 'b) \<times> 's) \<Rightarrow> ('a, 's) eff \<Rightarrow> ('b, 's) eff" where
  "post K m = (\<lambda>s. K (m s))"

text \<open>What \<^verbatim>\<open>transact\<close> does with the arguments it has assembled and signed.\<close>

definition broadcastStep ::
  "('w, 'ty, 'b) env \<Rightarrow> transactConfig
     \<Rightarrow> (error + transactOutcome) \<times> ('w, 'ty, 'b) api
     \<Rightarrow> (error + transactOutcome) \<times> ('w, 'ty, 'b) api" where
  "broadcastStep env cfg x =
     (case x of
        (Inl e, s1) \<Rightarrow> (Inl e, s1)
      | (Inr (Response r), s1) \<Rightarrow> (Inr (Response r), s1)
      | (Inr (Args pa), s1) \<Rightarrow>
          if broadcast cfg \<noteq> Some False
          then (case send_transaction env pa (world s1) of
                  (Inl e, w') \<Rightarrow>
                    (Inl e, s1\<lparr>world := w', calls := calls s1 @ [SendTransaction]\<rparr>)
                | (Inr r, w') \<Rightarrow>
                    (Inr (Response (decodeTraces env r)),
                     s1\<lparr>world := w', calls := calls s1 @ [SendTransaction]\<rparr>))
          else (Inr (Args pa), s1))"

section \<open>A sample node and sample inputs\<close>

text \<open>
  A node at head block 100 with last irreversible block 97, which serves an ABI for
  every account but \<open>ghost\<close> (an earlier one to its very first caller), has no header
  state to offer, and whose signature provider
  answers with signatures and the bytes it was given. The account \<open>wasmtoken\<close> has a WASM
  ABI whose decode hooks throw.
\<close>

definition demo_rawAbi :: bytes where
  "demo_rawAbi = [14, 101, 111, 115, 105, 111, 58, 58, 97, 98, 105, 47, 49, 46, 49, 0, 1]"

text \<open>An earlier ABI of the same accounts, which the node serves to its first caller.\<close>

definition demo_rawAbi_old :: bytes where
  "demo_rawAbi_old = [14, 101, 111, 115, 105, 111, 58, 58, 97, 98, 105, 47, 49, 46, 48, 0, 1]"

definition demo_wasmAbi :: wasmAbi where
  "demo_wasmAbi =
     \<lparr>action_args_bin_to_json = (\<lambda>n bs. Inl (Error ''unknown action'')),
      action_ret_bin_to_json = (\<lambda>n bs. Inl (Error ''unknown action''))\<rparr>"

definition demo_response :: transactResult where
  "demo_response =
     \<lparr>processed = Some
        \<lparr>action_traces = Some
           [\<lparr>act = Some \<lparr>act_account = ''wasmtoken'', act_name = ''transfer'',
                          act_data = Some (JString ''0a0b''), act_other = []\<rparr>,
             return_value = Some (JString ''01''),
             trace_other = [(''receiver'', JString ''wasmtoken'')]\<rparr>],
         processed_other = [(''block_num'', JNumber (Num 101))]\<rparr>,
      result_other = [(''transaction_id'', JString ''ab12'')]\<rparr>"

definition demo_env :: "(nat, string, unit) env" where
  "demo_env =
     \<lparr>get_info = (\<lambda>w. (Inr \<lparr>chain_id = ''cafe'', head_block_num = 100,
                               last_irreversible_block_num = 97\<rparr>, Suc w)),
      get_block = (\<lambda>n w. (Inr (JObject [(''block_num'', JNumber n)]), Suc w)),
      get_block_header_state = (\<lambda>n w. (Inl (Error ''Unknown block''), Suc w)),
      send_transaction = (\<lambda>pa w. (Inr demo_response, Suc w)),
      getRawAbi = (\<lambda>a w. (if a = ''ghost'' then Inl (Error ''unknown key'')
                            else if w = 0 then Inr demo_rawAbi_old
                            else Inr demo_rawAbi, Suc w)),
      getAvailableKeys = (\<lambda>w. (Inr [''EOS6demo''], Suc w)),
      getRequiredKeys = (\<lambda>t ks w. (Inr ks, Suc w)),
      signatureProvider_sign =
        (\<lambda>a w. (Inr \<lparr>signatures = [''SIG_K1_demo''], pta_compression = None,
                       serializedTransaction = spa_serializedTransaction a,
                       serializedContextFreeData = spa_serializedContextFreeData a\<rparr>,
                  Suc w)),
      wasmAbiProvider = Some (\<lambda>a. if a = ''wasmtoken'' then Some demo_wasmAbi else None),
      supported_prefixes = [''eosio::abi/1.''],
      abi_body_decode = (\<lambda>bs. Inr ([(''transfer'', ''transfer'')], ())),
      abi_body_encode = (\<lambda>b. Inr [0, 1]),
      getTypesFromAbi = (\<lambda>a. Inr (\<lambda>n. if n = ''transfer'' then Some ''transfer'' else None)),
      getType = (\<lambda>tys n. case tys n of None \<Rightarrow> Inl (Error ''Unknown type'')
                          | Some ty \<Rightarrow> Inr ty),
      serializeAction =
        (\<lambda>c a. case contract_actions c (name a) of
                  None \<Rightarrow> Inl (Error ''Unknown action'')
                | Some ty \<Rightarrow> Inr (a\<lparr>data := JString ''00''\<rparr>)),
      transaction_serialize = (\<lambda>t. Inr [1, 2, 3]),
      transactionHeader =
        (\<lambda>blk es. Inr \<lparr>hdr_expiration = JString ''2026-01-01T00:00:30.000'',
                        hdr_ref_block_num = JNumber (Num 97),
                        hdr_ref_block_prefix = JNumber (Num 42)\<rparr>),
      hexToUint8Array =
        (\<lambda>v. case v of JString s \<Rightarrow> Inr []
              | _ \<Rightarrow> Inl (Error ''Expected string containing hex digits''))\<rparr>"

text \<open>The same node out of reach: the node-info request fails.\<close>

definition offline_env :: "(nat, string, unit) env" where
  "offline_env = demo_env\<lparr>get_info := (\<lambda>w. (Inl (Error ''connect ECONNREFUSED''), Suc w))\<rparr>"

definition demo_api :: "(nat, string, unit) api" where
  "demo_api =
     \<lparr>chainId = None, contracts = Map.empty, cachedAbis = Map.empty, world = 0, calls = []\<rparr>"

definition demo_transaction :: transaction where
  "demo_transaction =
     \<lparr>expiration = None, ref_block_num = None, ref_block_prefix = None,
      context_free_actions = None,
      actions = Some
        [\<lparr>account = ''eosio.token'', name = ''transfer'',
          authorization = [(''bob'', ''active'')],
          data = JObject [(''from'', JString ''bob''), (''to'', JString ''alice''),
                          (''quantity'', JString ''0.0001 SYS''), (''memo'', JString ''m'')]\<rparr>],
      context_free_data = None, other_fields = []\<rparr>"

text \<open>\<^verbatim>\<open>{}\<close>, the default configuration.\<close>

definition no_config :: transactConfig where
  "no_config =
     \<lparr>broadcast = None, sign = None, requiredKeys = None, compression = None,
      blocksBehind = None, useLastIrreversible = None, expireSeconds = None\<rparr>"

text \<open>A transaction whose expiration is present but is the empty string.\<close>

definition blank_expiration :: transaction where
  "blank_expiration =
     demo_transaction\<lparr>expiration := Some (JString []),
       ref_block_num := Some (JNumber (Num 0)), ref_block_prefix := Some (JNumber (Num 0))\<rparr>"

text \<open>Three blocks behind the head, expiring thirty seconds after the reference block.\<close>

definition demo_config :: transactConfig where
  "demo_config = no_config\<lparr>blocksBehind := Some (Num 3), expireSeconds := Some (Num 30)\<rparr>"

text \<open>What the sample signature provider answers for the sample transaction.\<close>

definition demo_signed :: pushTransactionArgs where
  "demo_signed =
     \<lparr>signatures = [''SIG_K1_demo''], pta_compression = None,
      serializedTransaction = [1, 2, 3], serializedContextFreeData = None\<rparr>"

text \<open>The cache entries made from the two sample ABIs.\<close>

definition demo_cached_old :: "unit cachedAbi" where
  "demo_cached_old =
     \<lparr>rawAbi = demo_rawAbi_old,
      abi = \<lparr>abi_version = ''eosio::abi/1.0'', abi_actions = [(''transfer'', ''transfer'')],
             abi_rest = ()\<rparr>\<rparr>"

definition demo_cached :: "unit cachedAbi" where
  "demo_cached =
     \<lparr>rawAbi = demo_rawAbi,
      abi = \<lparr>abi_version = ''eosio::abi/1.1'', abi_actions = [(''transfer'', ''transfer'')],
             abi_rest = ()\<rparr>\<rparr>"

text \<open>The sample \<^verbatim>\<open>Api\<close> after its first fetch of the ABI of \<open>eosio.token\<close>.\<close>

definition demo_api_cached :: "(nat, string, unit) api" where
  "demo_api_cached =
     demo_api\<lparr>world := 1, calls := [GetRawAbi ''eosio.token''],
       cachedAbis := (cachedAbis demo_api)(''eosio.token'' \<mapsto> demo_cached_old)\<rparr>"

text \<open>A transaction on two accounts, the first of which the node does not know.\<close>

definition two_accounts :: transaction where
  "two_accounts =
     demo_transaction\<lparr>actions := Some
       [\<lparr>account = ''ghost'', name = ''transfer'', authorization = [], data = JNull\<rparr>,
        \<lparr>account = ''eosio.token'', name = ''transfer'', authorization = [], data = JNull\<rparr>]\<rparr>"

text \<open>Two actions of one account.\<close>

definition twin_actions :: "action list" where
  "twin_actions =
     [\<lparr>account = ''eosio.token'', name = ''transfer'', authorization = [], data = JNull\<rparr>,
      \<lparr>account = ''eosio.token'', name = ''transfer'', authorization = [], data = JNull\<rparr>]"

section \<open>Basic facts\<close>

lemma post_bindE:
  assumes "\<And>x. g x = post K (f x)" and "\<And>e s. K (Inl e, s) = (Inl e, s)"
  shows "bindE m g = post K (bindE m f)"
  by (rule ext) (simp add: bindE_def post_def assms split: prod.split sum.split)

lemma post_if:
  assumes "c \<Longrightarrow> a = post K a'" and "\<not> c \<Longrightarrow> b = post K b'"
  shows "(if c then a else b) = post K (if c then a' else b')"
  using assms by simp

lemma post_throwE:
  assumes "\<And>e s. K (Inl e, s) = (Inl e, s)"
  shows "throwE e = post K (throwE e)"
  by (rule ext) (simp add: throwE_def post_def assms)

lemma ensureChainId_cached:
  "chainId s \<noteq> None \<Longrightarrow> chainId s \<noteq> Some [] \<Longrightarrow> ensureChainId env s = (Inr None, s)"
  unfolding ensureChainId_def by (simp only: if_False simp_thms)

lemma ensureChainId_fetch:
  "chainId s = None \<or> chainId s = Some [] \<Longrightarrow>
   ensureChainId env s =
     (case get_info env (world s) of
        (Inl e, w') \<Rightarrow> (Inl e, s\<lparr>world := w', calls := calls s @ [GetInfo]\<rparr>)
      | (Inr info, w') \<Rightarrow>
          (Inr (Some info),
           s\<lparr>world := w', calls := calls s @ [GetInfo], chainId := Some (chain_id info)\<rparr>))"
  by (simp add: ensureChainId_def bindE_def remote_def split: prod.splits sum.splits)

section \<open>Configuration errors of \<^verbatim>\<open>transact\<close>\<close>

text \<open>
  C2. When the configuration gives both a numeric \<open>blocksBehind\<close> and a true
  \<open>useLastIrreversible\<close>, \<^verbatim>\<open>transact\<close> throws the configuration error and leaves the
  state as it was: no remote call has been made, neither for the node info nor for a
  block, a header state or an ABI.
\<close>

theorem transact_rejects_both_knobs:
  assumes "blocksBehind cfg = Some n" and "useLastIrreversible cfg = Some True"
  shows "transact env t cfg s = (Inl configError1, s)
         \<and> calls (snd (transact env t cfg s)) = calls s"
  using assms by (simp add: transact_def throwE_def)

theorem transact_rejects_both_knobs_witness:
  "blocksBehind (no_config\<lparr>blocksBehind := Some (Num 3), useLastIrreversible := Some True\<rparr>)
     = Some (Num 3)
   \<and> useLastIrreversible
       (no_config\<lparr>blocksBehind := Some (Num 3), useLastIrreversible := Some True\<rparr>) = Some True
   \<and> transact demo_env demo_transaction
       (no_config\<lparr>blocksBehind := Some (Num 3), useLastIrreversible := Some True\<rparr>) demo_api
     = (Inl (Error ''Use either blocksBehind or useLastIrreversible''), demo_api)
   \<and> calls (snd (transact demo_env demo_transaction
       (no_config\<lparr>blocksBehind := Some (Num 3), useLastIrreversible := Some True\<rparr>) demo_api))
     = []"
proof -
  let ?cfg = "no_config\<lparr>blocksBehind := Some (Num 3), useLastIrreversible := Some True\<rparr>"
  have h1: "blocksBehind ?cfg = Some (Num 3)" by simp
  have h2: "useLastIrreversible ?cfg = Some True" by simp
  have c: "calls demo_api = []" by (simp add: demo_api_def)
  show ?thesis
    using transact_rejects_both_knobs [OF h1 h2, of demo_env demo_transaction demo_api] h1 h2 c
    by (simp add: configError1_def)
qed

lemma transact_no_tapos_config:
  assumes nt: "\<not> hasRequiredTaposFields t"
    and nk: "\<not> ((blocksBehind cfg \<noteq> None \<or> useLastIrreversible cfg = Some True)
                \<and> truthy_number (expireSeconds cfg))"
    and nb: "\<not> (blocksBehind cfg \<noteq> None \<and> useLastIrreversible cfg = Some True)"
  shows "transact env t cfg s =
     (case ensureChainId env s of
        (Inl e, s') \<Rightarrow> (Inl e, s')
      | (Inr info, s') \<Rightarrow> (Inl configError2, s'))"
proof (cases "ensureChainId env s")
  case (Pair r s')
  from nk have nk': "((blocksBehind cfg \<noteq> None \<or> useLastIrreversible cfg = Some True)
                \<and> truthy_number (expireSeconds cfg)) = False" by simp
  from nb have nb': "(blocksBehind cfg \<noteq> None \<and> useLastIrreversible cfg = Some True) = False"
    by simp
  show ?thesis
    unfolding transact_def nk' nb'
    by (cases r) (simp_all add: Pair bindE_def returnE_def throwE_def nt)
qed

text \<open>
  C3, as the code has it. A transaction without complete TAPOS fields, under a
  configuration that does not select a reference block together with \<open>expireSeconds\<close>,
  makes \<^verbatim>\<open>transact\<close> fail, and the outcome is this one exactly. With both selections
  given it is the first configuration error, with no remote call. With a chain id cached
  it is the second configuration error, with no remote call. With no chain id cached the
  node info is requested, and nothing else: if that request fails, \<^verbatim>\<open>transact\<close> fails
  with the error of the request and not with a configuration error; if it succeeds, the
  chain id is cached and \<^verbatim>\<open>transact\<close> fails with the second configuration error. In
  every case the caches of ABIs and contracts are untouched.
\<close>

theorem transact_without_tapos_fails:
  assumes nt: "\<not> hasRequiredTaposFields t"
    and nk: "\<not> ((blocksBehind cfg \<noteq> None \<or> useLastIrreversible cfg = Some True)
                \<and> truthy_number (expireSeconds cfg))"
  shows "transact env t cfg s =
           (if blocksBehind cfg \<noteq> None \<and> useLastIrreversible cfg = Some True
            then (Inl configError1, s)
            else if chainId s = None \<or> chainId s = Some []
            then (case get_info env (world s) of
                    (Inl e, w') \<Rightarrow>
                      (Inl e, s\<lparr>world := w', calls := calls s @ [GetInfo]\<rparr>)
                  | (Inr info, w') \<Rightarrow>
                      (Inl configError2,
                       s\<lparr>world := w', calls := calls s @ [GetInfo],
                         chainId := Some (chain_id info)\<rparr>))
            else (Inl configError2, s))
       \<and> (\<exists>e s'. transact env t cfg s = (Inl e, s')
             \<and> (e = configError1 \<or> e = configError2
                \<or> ((chainId s = None \<or> chainId s = Some [])
                    \<and> fst (get_info env (world s)) = Inl e))
             \<and> (calls s' = calls s
                \<or> ((chainId s = None \<or> chainId s = Some []) \<and> calls s' = calls s @ [GetInfo]))
             \<and> cachedAbis s' = cachedAbis s \<and> contracts s' = contracts s)"
proof (cases "blocksBehind cfg \<noteq> None \<and> useLastIrreversible cfg = Some True")
  case True
  then have both: "(blocksBehind cfg \<noteq> None \<and> useLastIrreversible cfg = Some True) = True"
    by simp
  from True have run: "transact env t cfg s = (Inl configError1, s)"
    by (simp add: transact_def throwE_def)
  show ?thesis unfolding both by (simp add: run)
next
  case nb: False
  then have both: "(blocksBehind cfg \<noteq> None \<and> useLastIrreversible cfg = Some True) = False"
    by simp
  note eq = transact_no_tapos_config [OF nt nk nb, of env s]
  show ?thesis
  proof (cases "chainId s = None \<or> chainId s = Some []")
    case False
    then have cached: "(chainId s = None \<or> chainId s = Some []) = False" by simp
    from False have "ensureChainId env s = (Inr None, s)"
      by (simp add: ensureChainId_cached)
    with eq have run: "transact env t cfg s = (Inl configError2, s)" by simp
    show ?thesis unfolding both cached by (simp add: run)
  next
    case True
    then have missing: "(chainId s = None \<or> chainId s = Some []) = True" by simp
    note fetch = ensureChainId_fetch [OF True, of env]
    obtain r w' where g: "get_info env (world s) = (r, w')"
      by (cases "get_info env (world s)")
    show ?thesis
    proof (cases r)
      case (Inl e)
      with eq fetch g
      have run: "transact env t cfg s = (Inl e, s\<lparr>world := w', calls := calls s @ [GetInfo]\<rparr>)"
        by simp
      show ?thesis unfolding both missing by (simp add: run g Inl)
    next
      case (Inr info)
      with eq fetch g
      have run: "transact env t cfg s =
          (Inl configError2,
           s\<lparr>world := w', calls := calls s @ [GetInfo], chainId := Some (chain_id info)\<rparr>)"
        by simp
      show ?thesis unfolding both missing by (simp add: run g Inr)
    qed
  qed
qed

theorem transact_without_tapos_fails_witness:
  "\<not> hasRequiredTaposFields demo_transaction
   \<and> \<not> ((blocksBehind no_config \<noteq> None \<or> useLastIrreversible no_config = Some True)
         \<and> truthy_number (expireSeconds no_config))
   \<and> transact demo_env demo_transaction no_config demo_api
       = (Inl configError2,
          demo_api\<lparr>world := 1, calls := [GetInfo], chainId := Some ''cafe''\<rparr>)
   \<and> transact offline_env demo_transaction no_config demo_api
       = (Inl (Error ''connect ECONNREFUSED''), demo_api\<lparr>world := 1, calls := [GetInfo]\<rparr>)
   \<and> transact demo_env demo_transaction no_config (demo_api\<lparr>chainId := Some ''cafe''\<rparr>)
       = (Inl configError2, demo_api\<lparr>chainId := Some ''cafe''\<rparr>)"
proof -
  have h1: "\<not> hasRequiredTaposFields demo_transaction"
    by (simp add: hasRequiredTaposFields_def demo_transaction_def)
  have h2: "\<not> ((blocksBehind no_config \<noteq> None \<or> useLastIrreversible no_config = Some True)
         \<and> truthy_number (expireSeconds no_config))"
    by (simp add: no_config_def)
  have nb: "\<not> (blocksBehind no_config \<noteq> None \<and> useLastIrreversible no_config = Some True)"
    by (simp add: no_config_def)
  from transact_without_tapos_fails [OF h1 h2, of demo_env demo_api] nb
  have a: "transact demo_env demo_transaction no_config demo_api
       = (Inl configError2,
          demo_api\<lparr>world := 1, calls := [GetInfo], chainId := Some ''cafe''\<rparr>)"
    by (simp add: demo_env_def demo_api_def)
  from transact_without_tapos_fails [OF h1 h2, of offline_env demo_api] nb
  have b: "transact offline_env demo_transaction no_config demo_api
       = (Inl (Error ''connect ECONNREFUSED''), demo_api\<lparr>world := 1, calls := [GetInfo]\<rparr>)"
    by (simp add: offline_env_def demo_env_def demo_api_def)
  from transact_without_tapos_fails
    [OF h1 h2, of demo_env "demo_api\<lparr>chainId := Some ''cafe''\<rparr>"] nb
  have c: "transact demo_env demo_transaction no_config (demo_api\<lparr>chainId := Some ''cafe''\<rparr>)
       = (Inl configError2, demo_api\<lparr>chainId := Some ''cafe''\<rparr>)"
    by (simp add: no_config_def)
  from h1 h2 a b c show ?thesis by blast
qed

text \<open>
  The claim as it was stated, that the failure is always a configuration error, does not
  hold: with no chain id cached and the node out of reach, \<^verbatim>\<open>transact\<close> fails with the
  error of the node-info request.
\<close>

theorem transact_without_tapos_node_error:
  "\<not> hasRequiredTaposFields demo_transaction
   \<and> blocksBehind no_config = None \<and> useLastIrreversible no_config = None
   \<and> expireSeconds no_config = None
   \<and> fst (transact offline_env demo_transaction no_config demo_api)
       = Inl (Error ''connect ECONNREFUSED'')
   \<and> Error ''connect ECONNREFUSED'' \<noteq> configError1
   \<and> Error ''connect ECONNREFUSED'' \<noteq> configError2"
  by code_simp

section \<open>The completeness check of the TAPOS fields\<close>

lemma merge_header_expiration:
  "expiration t = Some v \<Longrightarrow> expiration (merge_header h t) = Some v"
  by (simp add: merge_header_def)

lemma generateTapos_Inr:
  assumes "generateTapos env info t bb uli es s = (Inr t1, s1)"
  shows "\<exists>h. t1 = merge_header h t"
proof -
  let ?resolve = "case info of None \<Rightarrow> remote GetInfo (get_info env) | Some i \<Rightarrow> returnE i"
  obtain r0 s0 where p0: "?resolve s = (r0, s0)" by (cases "?resolve s")
  show ?thesis
  proof (cases r0)
    case (Inl e)
    with assms p0 show ?thesis by (simp add: generateTapos_def bindE_def)
  next
    case (Inr i)
    let ?n = "if uli = Some True then Num (last_irreversible_block_num i)
              else js_minus (Num (head_block_num i)) (to_number bb)"
    let ?fetch = "if js_le ?n (Num (last_irreversible_block_num i))
                  then remote (GetBlock ?n) (get_block env ?n)
                  else tryGetBlockHeaderState env ?n"
    obtain r2 s2 where p2: "?fetch s0 = (r2, s2)" by (cases "?fetch s0")
    show ?thesis
    proof (cases r2)
      case (Inl e)
      with assms p0 Inr p2 show ?thesis
        by (simp add: generateTapos_def bindE_def Let_def)
    next
      case blk: (Inr b)
      show ?thesis
      proof (cases "transactionHeader env b es")
        case (Inl e)
        with assms p0 Inr p2 blk show ?thesis
          by (simp add: generateTapos_def bindE_def Let_def liftE_def)
      next
        case h: (Inr h)
        with assms p0 Inr p2 blk show ?thesis
          by (auto simp add: generateTapos_def bindE_def Let_def liftE_def returnE_def)
      qed
    qed
  qed
qed

lemma empty_expiration_not_complete:
  "expiration t = Some (JString []) \<Longrightarrow> \<not> hasRequiredTaposFields t"
  by (simp add: hasRequiredTaposFields_def)

lemma transact_empty_expiration:
  assumes ex: "expiration t = Some (JString [])"
    and nb: "\<not> (blocksBehind cfg \<noteq> None \<and> useLastIrreversible cfg = Some True)"
  shows "transact env t cfg s =
     (case ensureChainId env s of
        (Inl e, s0) \<Rightarrow> (Inl e, s0)
      | (Inr info, s0) \<Rightarrow>
          if (blocksBehind cfg \<noteq> None \<or> useLastIrreversible cfg = Some True)
             \<and> truthy_number (expireSeconds cfg)
          then (case generateTapos env info t (blocksBehind cfg) (useLastIrreversible cfg)
                       (to_number (expireSeconds cfg)) s0 of
                  (Inl e, s1) \<Rightarrow> (Inl e, s1)
                | (Inr t1, s1) \<Rightarrow> (Inl configError2, s1))
          else (Inl configError2, s0))"
proof (cases "(blocksBehind cfg \<noteq> None \<or> useLastIrreversible cfg = Some True)
             \<and> truthy_number (expireSeconds cfg)")
  case False
  then have k': "((blocksBehind cfg \<noteq> None \<or> useLastIrreversible cfg = Some True)
             \<and> truthy_number (expireSeconds cfg)) = False" by simp
  have "transact env t cfg s =
     (case ensureChainId env s of
        (Inl e, s') \<Rightarrow> (Inl e, s')
      | (Inr info, s') \<Rightarrow> (Inl configError2, s'))"
    by (rule transact_no_tapos_config [OF empty_expiration_not_complete [OF ex] False nb])
  then show ?thesis unfolding k' by (simp only: if_False)
next
  case True
  from nb have nb': "(blocksBehind cfg \<noteq> None \<and> useLastIrreversible cfg = Some True) = False"
    by simp
  from True have k': "((blocksBehind cfg \<noteq> None \<or> useLastIrreversible cfg = Some True)
             \<and> truthy_number (expireSeconds cfg)) = True" by simp
  obtain r0 s0 where p0: "ensureChainId env s = (r0, s0)" by (cases "ensureChainId env s")
  show ?thesis
  proof (cases r0)
    case (Inl e)
    with p0 show ?thesis unfolding transact_def nb' by (simp add: bindE_def)
  next
    case (Inr info)
    let ?g = "generateTapos env info t (blocksBehind cfg) (useLastIrreversible cfg)
                       (to_number (expireSeconds cfg))"
    obtain r1 s1 where p1: "?g s0 = (r1, s1)" by (cases "?g s0")
    show ?thesis
    proof (cases r1)
      case (Inl e)
      with p0 Inr p1 show ?thesis unfolding transact_def nb' k' by (simp add: bindE_def)
    next
      case t1: (Inr t1)
      from generateTapos_Inr p1 t1 obtain h where "t1 = merge_header h t" by blast
      with ex have "\<not> hasRequiredTaposFields t1"
        by (simp add: empty_expiration_not_complete merge_header_expiration)
      with p0 Inr p1 t1 show ?thesis
        unfolding transact_def nb' k' by (simp add: bindE_def throwE_def)
    qed
  qed
qed


lemma typeof_number: "typeof v = ''number'' \<Longrightarrow> \<exists>n. v = JNumber n"
  by (cases v) simp_all

lemma get_prop_number: "get_prop x = JNumber n \<Longrightarrow> x = Some (JNumber n)"
  by (cases x) simp_all

text \<open>
  C10. The completeness check accepts any number, zero and \<^verbatim>\<open>NaN\<close> included, as
  \<open>ref_block_num\<close> and \<open>ref_block_prefix\<close>, and nothing but numbers: a string of digits
  is rejected. The expiration is judged by truthiness alone, so an expiration that is
  present as the empty string counts as missing: the check fails, and \<^verbatim>\<open>transact\<close>, once
  the chain id is there and the reference block (when one is configured) is resolved,
  throws the configuration error; the header of the reference block does not repair it,
  since the property of the transaction wins.
\<close>

theorem tapos_completeness_check:
  "(truthy e \<longrightarrow>
      hasRequiredTaposFields
        (t\<lparr>expiration := Some e, ref_block_num := Some (JNumber n),
           ref_block_prefix := Some (JNumber m)\<rparr>))
   \<and> (hasRequiredTaposFields t \<longrightarrow>
        truthy (get_prop (expiration t))
        \<and> (\<exists>n m. ref_block_num t = Some (JNumber n) \<and> ref_block_prefix t = Some (JNumber m)))
   \<and> \<not> hasRequiredTaposFields (t\<lparr>ref_block_num := Some (JString str)\<rparr>)
   \<and> \<not> hasRequiredTaposFields (t\<lparr>ref_block_prefix := Some (JString str)\<rparr>)
   \<and> (expiration t = Some (JString []) \<longrightarrow> \<not> hasRequiredTaposFields t)
   \<and> (expiration t = Some (JString [])
        \<and> \<not> (blocksBehind cfg \<noteq> None \<and> useLastIrreversible cfg = Some True) \<longrightarrow>
        transact env t cfg s =
          (case ensureChainId env s of
             (Inl e, s0) \<Rightarrow> (Inl e, s0)
           | (Inr info, s0) \<Rightarrow>
               if (blocksBehind cfg \<noteq> None \<or> useLastIrreversible cfg = Some True)
                  \<and> truthy_number (expireSeconds cfg)
               then (case generateTapos env info t (blocksBehind cfg)
                            (useLastIrreversible cfg) (to_number (expireSeconds cfg)) s0 of
                       (Inl e, s1) \<Rightarrow> (Inl e, s1)
                     | (Inr t1, s1) \<Rightarrow> (Inl configError2, s1))
               else (Inl configError2, s0)))"
proof (intro conjI impI)
  assume "truthy e"
  then show "hasRequiredTaposFields
        (t\<lparr>expiration := Some e, ref_block_num := Some (JNumber n),
           ref_block_prefix := Some (JNumber m)\<rparr>)"
    by (simp add: hasRequiredTaposFields_def)
next
  assume "hasRequiredTaposFields t"
  then show "truthy (get_prop (expiration t))"
    by (simp add: hasRequiredTaposFields_def)
next
  assume h: "hasRequiredTaposFields t"
  then obtain n where "get_prop (ref_block_num t) = JNumber n"
    unfolding hasRequiredTaposFields_def using typeof_number by blast
  moreover from h obtain m where "get_prop (ref_block_prefix t) = JNumber m"
    unfolding hasRequiredTaposFields_def using typeof_number by blast
  ultimately show "\<exists>n m. ref_block_num t = Some (JNumber n) \<and> ref_block_prefix t = Some (JNumber m)"
    using get_prop_number by blast
next
  show "\<not> hasRequiredTaposFields (t\<lparr>ref_block_num := Some (JString str)\<rparr>)"
    by (simp add: hasRequiredTaposFields_def)
next
  show "\<not> hasRequiredTaposFields (t\<lparr>ref_block_prefix := Some (JString str)\<rparr>)"
    by (simp add: hasRequiredTaposFields_def)
next
  assume "expiration t = Some (JString [])"
  then show "\<not> hasRequiredTaposFields t" by (rule empty_expiration_not_complete)
next
  assume "expiration t = Some (JString [])
        \<and> \<not> (blocksBehind cfg \<noteq> None \<and> useLastIrreversible cfg = Some True)"
  then show "transact env t cfg s =
          (case ensureChainId env s of
             (Inl e, s0) \<Rightarrow> (Inl e, s0)
           | (Inr info, s0) \<Rightarrow>
               if (blocksBehind cfg \<noteq> None \<or> useLastIrreversible cfg = Some True)
                  \<and> truthy_number (expireSeconds cfg)
               then (case generateTapos env info t (blocksBehind cfg)
                            (useLastIrreversible cfg) (to_number (expireSeconds cfg)) s0 of
                       (Inl e, s1) \<Rightarrow> (Inl e, s1)
                     | (Inr t1, s1) \<Rightarrow> (Inl configError2, s1))
               else (Inl configError2, s0))"
    using transact_empty_expiration by blast
qed

theorem tapos_completeness_check_witness:
  "hasRequiredTaposFields
     (demo_transaction\<lparr>expiration := Some (JString ''2026-01-01T00:00:00''),
        ref_block_num := Some (JNumber (Num 0)), ref_block_prefix := Some (JNumber (Num 0))\<rparr>)
   \<and> expiration blank_expiration = Some (JString [])
   \<and> \<not> hasRequiredTaposFields blank_expiration
   \<and> transact demo_env blank_expiration no_config (demo_api\<lparr>chainId := Some ''cafe''\<rparr>)
       = (Inl configError2, demo_api\<lparr>chainId := Some ''cafe''\<rparr>)"
proof -
  have tr: "truthy (JString ''2026-01-01T00:00:00'')" by simp
  have ex: "expiration blank_expiration = Some (JString [])"
    by (simp add: blank_expiration_def)
  have nb: "\<not> (blocksBehind no_config \<noteq> None \<and> useLastIrreversible no_config = Some True)"
    by (simp add: no_config_def)
  have ch: "ensureChainId demo_env (demo_api\<lparr>chainId := Some ''cafe''\<rparr>)
            = (Inr None, demo_api\<lparr>chainId := Some ''cafe''\<rparr>)"
    by (simp add: ensureChainId_def)
  have nk: "\<not> ((blocksBehind no_config \<noteq> None \<or> useLastIrreversible no_config = Some True)
                  \<and> truthy_number (expireSeconds no_config))"
    by (simp add: no_config_def)
  note a = tapos_completeness_check
    [where e = "JString ''2026-01-01T00:00:00''" and t = demo_transaction and n = "Num 0"
      and m = "Num 0" and cfg = no_config and env = demo_env
      and s = "demo_api\<lparr>chainId := Some ''cafe''\<rparr>"]
  note b = tapos_completeness_check
    [where t = blank_expiration and cfg = no_config and env = demo_env
      and s = "demo_api\<lparr>chainId := Some ''cafe''\<rparr>"]
  from a tr have 1: "hasRequiredTaposFields
     (demo_transaction\<lparr>expiration := Some (JString ''2026-01-01T00:00:00''),
        ref_block_num := Some (JNumber (Num 0)), ref_block_prefix := Some (JNumber (Num 0))\<rparr>)"
    by blast
  from b ex have 2: "\<not> hasRequiredTaposFields blank_expiration" by blast
  from b ex nb have "transact demo_env blank_expiration no_config (demo_api\<lparr>chainId := Some ''cafe''\<rparr>) =
          (case ensureChainId demo_env (demo_api\<lparr>chainId := Some ''cafe''\<rparr>) of
             (Inl e, s0) \<Rightarrow> (Inl e, s0)
           | (Inr info, s0) \<Rightarrow>
               if (blocksBehind no_config \<noteq> None \<or> useLastIrreversible no_config = Some True)
                  \<and> truthy_number (expireSeconds no_config)
               then (case generateTapos demo_env info blank_expiration (blocksBehind no_config)
                            (useLastIrreversible no_config) (to_number (expireSeconds no_config)) s0 of
                       (Inl e, s1) \<Rightarrow> (Inl e, s1)
                     | (Inr t1, s1) \<Rightarrow> (Inl configError2, s1))
               else (Inl configError2, s0))"
    by blast
  with ch nk have 3: "transact demo_env blank_expiration no_config (demo_api\<lparr>chainId := Some ''cafe''\<rparr>)
       = (Inl configError2, demo_api\<lparr>chainId := Some ''cafe''\<rparr>)"
    by (simp add: no_config_def)
  from 1 ex 2 3 show ?thesis by blast
qed

section \<open>The reference block\<close>

lemma tryGetBlockHeaderState_cases:
  "tryGetBlockHeaderState env n s =
     (case get_block_header_state env n (world s) of
        (Inr hs, w') \<Rightarrow> (Inr hs, s\<lparr>world := w', calls := calls s @ [GetBlockHeaderState n]\<rparr>)
      | (Inl e, w') \<Rightarrow>
          (case get_block env n w' of
             (r, w'') \<Rightarrow>
               (r, s\<lparr>world := w'', calls := calls s @ [GetBlockHeaderState n, GetBlock n]\<rparr>)))"
  by (simp add: tryGetBlockHeaderState_def catchE_def remote_def split: prod.split sum.split)

text \<open>
  C4. Once the node info is at hand, \<^verbatim>\<open>generateTapos\<close> chooses the reference block
  number \<open>n\<close>. If \<open>n\<close> is at or below the last irreversible block number, the one remote
  call is the fetch of the full block \<open>n\<close>, and no header state is asked for. Otherwise
  the header state of \<open>n\<close> is asked for first; if that request fails, whatever its
  error, the full block \<open>n\<close> is fetched next and the TAPOS fields come from it.
\<close>

theorem generateTapos_block_fetch:
  assumes info: "(case info of None \<Rightarrow> remote GetInfo (get_info env) | Some i \<Rightarrow> returnE i) s
                 = (Inr i, s0)"
    and n: "n = (if uli = Some True then Num (last_irreversible_block_num i)
                 else js_minus (Num (head_block_num i)) (to_number bb))"
  shows "(js_le n (Num (last_irreversible_block_num i)) \<longrightarrow>
            generateTapos env info t bb uli es s =
              (case get_block env n (world s0) of
                 (Inl e, w') \<Rightarrow> (Inl e, s0\<lparr>world := w', calls := calls s0 @ [GetBlock n]\<rparr>)
               | (Inr blk, w') \<Rightarrow>
                   (map_sum id (\<lambda>h. merge_header h t) (transactionHeader env blk es),
                    s0\<lparr>world := w', calls := calls s0 @ [GetBlock n]\<rparr>)))
       \<and> (\<not> js_le n (Num (last_irreversible_block_num i)) \<longrightarrow>
            generateTapos env info t bb uli es s =
              (case get_block_header_state env n (world s0) of
                 (Inr hs, w') \<Rightarrow>
                   (map_sum id (\<lambda>h. merge_header h t) (transactionHeader env hs es),
                    s0\<lparr>world := w', calls := calls s0 @ [GetBlockHeaderState n]\<rparr>)
               | (Inl e, w') \<Rightarrow>
                   (case get_block env n w' of
                      (Inl e', w'') \<Rightarrow>
                        (Inl e', s0\<lparr>world := w'',
                                   calls := calls s0 @ [GetBlockHeaderState n, GetBlock n]\<rparr>)
                    | (Inr blk, w'') \<Rightarrow>
                        (map_sum id (\<lambda>h. merge_header h t) (transactionHeader env blk es),
                         s0\<lparr>world := w'',
                            calls := calls s0 @ [GetBlockHeaderState n, GetBlock n]\<rparr>))))"
proof (intro conjI impI)
  assume le: "js_le n (Num (last_irreversible_block_num i))"
  show "generateTapos env info t bb uli es s =
              (case get_block env n (world s0) of
                 (Inl e, w') \<Rightarrow> (Inl e, s0\<lparr>world := w', calls := calls s0 @ [GetBlock n]\<rparr>)
               | (Inr blk, w') \<Rightarrow>
                   (map_sum id (\<lambda>h. merge_header h t) (transactionHeader env blk es),
                    s0\<lparr>world := w', calls := calls s0 @ [GetBlock n]\<rparr>))"
    using info le unfolding generateTapos_def n [symmetric] Let_def
    by (simp add: bindE_def remote_def liftE_def returnE_def n [symmetric]
        split: prod.split sum.split)
next
  assume gt: "\<not> js_le n (Num (last_irreversible_block_num i))"
  show "generateTapos env info t bb uli es s =
              (case get_block_header_state env n (world s0) of
                 (Inr hs, w') \<Rightarrow>
                   (map_sum id (\<lambda>h. merge_header h t) (transactionHeader env hs es),
                    s0\<lparr>world := w', calls := calls s0 @ [GetBlockHeaderState n]\<rparr>)
               | (Inl e, w') \<Rightarrow>
                   (case get_block env n w' of
                      (Inl e', w'') \<Rightarrow>
                        (Inl e', s0\<lparr>world := w'',
                                   calls := calls s0 @ [GetBlockHeaderState n, GetBlock n]\<rparr>)
                    | (Inr blk, w'') \<Rightarrow>
                        (map_sum id (\<lambda>h. merge_header h t) (transactionHeader env blk es),
                         s0\<lparr>world := w'',
                            calls := calls s0 @ [GetBlockHeaderState n, GetBlock n]\<rparr>)))"
    using info gt unfolding generateTapos_def n [symmetric] Let_def
    by (simp add: bindE_def liftE_def returnE_def tryGetBlockHeaderState_cases n [symmetric]
        split: prod.split sum.split)
qed


theorem generateTapos_block_fetch_witness:
  "js_le (Num 97) (Num 97)
   \<and> generateTapos demo_env None demo_transaction (Some (Num 3)) None (Num 30) demo_api
       = (Inr (demo_transaction
                 \<lparr>expiration := Some (JString ''2026-01-01T00:00:30.000''),
                  ref_block_num := Some (JNumber (Num 97)),
                  ref_block_prefix := Some (JNumber (Num 42))\<rparr>),
          demo_api\<lparr>world := 2, calls := [GetInfo, GetBlock (Num 97)]\<rparr>)
   \<and> \<not> js_le (Num 99) (Num 97)
   \<and> generateTapos demo_env None demo_transaction (Some (Num 1)) None (Num 30) demo_api
       = (Inr (demo_transaction
                 \<lparr>expiration := Some (JString ''2026-01-01T00:00:30.000''),
                  ref_block_num := Some (JNumber (Num 97)),
                  ref_block_prefix := Some (JNumber (Num 42))\<rparr>),
          demo_api\<lparr>world := 3,
             calls := [GetInfo, GetBlockHeaderState (Num 99), GetBlock (Num 99)]\<rparr>)"
proof -
  let ?i = "\<lparr>chain_id = ''cafe'', head_block_num = 100, last_irreversible_block_num = 97\<rparr>"
  let ?s0 = "demo_api\<lparr>world := 1, calls := [GetInfo]\<rparr>"
  have info: "(case None of None \<Rightarrow> remote GetInfo (get_info demo_env) | Some i \<Rightarrow> returnE i)
                demo_api = (Inr ?i, ?s0)"
    by (simp add: remote_def demo_env_def demo_api_def)
  have n3: "Num 97 = (if None = Some True then Num (last_irreversible_block_num ?i)
                 else js_minus (Num (head_block_num ?i)) (to_number (Some (Num 3))))"
    by simp
  have n1: "Num 99 = (if None = Some True then Num (last_irreversible_block_num ?i)
                 else js_minus (Num (head_block_num ?i)) (to_number (Some (Num 1))))"
    by simp
  have le: "js_le (Num 97) (Num (last_irreversible_block_num ?i))" by simp
  have gt: "\<not> js_le (Num 99) (Num (last_irreversible_block_num ?i))" by simp
  from generateTapos_block_fetch [OF info n3, of demo_transaction "Num 30"] le
  have a: "generateTapos demo_env None demo_transaction (Some (Num 3)) None (Num 30) demo_api
       = (Inr (demo_transaction
                 \<lparr>expiration := Some (JString ''2026-01-01T00:00:30.000''),
                  ref_block_num := Some (JNumber (Num 97)),
                  ref_block_prefix := Some (JNumber (Num 42))\<rparr>),
          demo_api\<lparr>world := 2, calls := [GetInfo, GetBlock (Num 97)]\<rparr>)"
    by (simp add: demo_env_def demo_api_def merge_header_def demo_transaction_def)
  from generateTapos_block_fetch [OF info n1, of demo_transaction "Num 30"] gt
  have b: "generateTapos demo_env None demo_transaction (Some (Num 1)) None (Num 30) demo_api
       = (Inr (demo_transaction
                 \<lparr>expiration := Some (JString ''2026-01-01T00:00:30.000''),
                  ref_block_num := Some (JNumber (Num 97)),
                  ref_block_prefix := Some (JNumber (Num 42))\<rparr>),
          demo_api\<lparr>world := 3,
             calls := [GetInfo, GetBlockHeaderState (Num 99), GetBlock (Num 99)]\<rparr>)"
    by (simp add: demo_env_def demo_api_def merge_header_def demo_transaction_def)
  from a b show ?thesis by simp
qed

section \<open>Broadcasting and the decoding of traces\<close>

lemma broadcastStep_Inl: "broadcastStep env cfg (Inl e, s) = (Inl e, s)"
  by (simp add: broadcastStep_def)

lemma final_step:
  "(if broadcast cfg \<noteq> Some False
    then bindE (remote SendTransaction (send_transaction env pa))
           (\<lambda>result. returnE (Response (decodeTraces env result)))
    else returnE (Args pa)) = post (broadcastStep env cfg) (returnE (Args pa))"
  by (rule ext)
    (simp add: post_def broadcastStep_def bindE_def returnE_def remote_def
      split: prod.split sum.split)

lemma transact_broadcast:
  "transact env t cfg =
     post (broadcastStep env cfg) (transact env t (cfg\<lparr>broadcast := Some False\<rparr>))"
proof -
  define cfg' where "cfg' = cfg\<lparr>broadcast := Some False\<rparr>"
  have f: "blocksBehind cfg' = blocksBehind cfg"
    "useLastIrreversible cfg' = useLastIrreversible cfg"
    "expireSeconds cfg' = expireSeconds cfg" "sign cfg' = sign cfg"
    "requiredKeys cfg' = requiredKeys cfg" "compression cfg' = compression cfg"
    "broadcast cfg' = Some False"
    by (simp_all add: cfg'_def)
  have "transact env t cfg = post (broadcastStep env cfg) (transact env t cfg')"
    unfolding transact_def Let_def f
    apply (simp only: simp_thms if_False)
    apply (intro post_if post_bindE post_throwE broadcastStep_Inl final_step)
    done
  then show ?thesis by (simp add: cfg'_def)
qed

lemma decodeActionData_keeps:
  "trace_other (decodeActionData env wabi nm at) = trace_other at"
  "return_value (decodeActionData env wabi nm at) = return_value at"
  "map_option act_account (act (decodeActionData env wabi nm at)) = map_option act_account (act at)"
  "map_option act_other (act (decodeActionData env wabi nm at)) = map_option act_other (act at)"
  by (simp_all add: decodeActionData_def split: option.split sum.split prod.split)

lemma decodeReturnValue_keeps:
  "trace_other (decodeReturnValue env wabi nm at) = trace_other at"
  "map_option act_data (act (decodeReturnValue env wabi nm at)) = map_option act_data (act at)"
  "map_option act_account (act (decodeReturnValue env wabi nm at)) = map_option act_account (act at)"
  "map_option act_other (act (decodeReturnValue env wabi nm at)) = map_option act_other (act at)"
  by (simp_all add: decodeReturnValue_def option.map_comp comp_def
      split: option.split sum.split prod.split)

lemma decodeActionData_throws:
  assumes "act at = Some a"
    and "\<forall>d bs. act_data a = Some d \<and> hexToUint8Array env d = Inr bs
           \<longrightarrow> isl (action_args_bin_to_json wabi nm bs)"
  shows "decodeActionData env wabi nm at = at"
  using assms
  by (auto simp add: decodeActionData_def split: option.split sum.split prod.split)

lemma decodeReturnValue_throws:
  assumes "\<forall>rv bs. return_value at = Some rv \<and> hexToUint8Array env rv = Inr bs
           \<longrightarrow> isl (action_ret_bin_to_json wabi nm bs)"
  shows "decodeReturnValue env wabi nm at = at"
  using assms
  by (auto simp add: decodeReturnValue_def split: option.split sum.split prod.split)

lemma decodeTrace_other: "trace_other (decodeTrace env at) = trace_other at"
  by (simp add: decodeTrace_def decodeActionData_keeps decodeReturnValue_keeps
      split: option.split)

lemma decodeTrace_unregistered:
  "act at = None \<or> (\<exists>a. act at = Some a \<and> wasmAbiFor env (act_account a) = None)
   \<Longrightarrow> decodeTrace env at = at"
  by (auto simp add: decodeTrace_def)

lemma decodeTrace_data_throws:
  assumes "act at = Some a" and "wasmAbiFor env (act_account a) = Some wabi"
    and "\<forall>d bs. act_data a = Some d \<and> hexToUint8Array env d = Inr bs
           \<longrightarrow> isl (action_args_bin_to_json wabi (act_name a) bs)"
  shows "map_option act_data (act (decodeTrace env at)) = Some (act_data a)"
  using assms
  by (simp add: decodeTrace_def decodeReturnValue_keeps decodeActionData_throws)

lemma decodeTrace_ret_throws:
  assumes "act at = Some a" and "wasmAbiFor env (act_account a) = Some wabi"
    and "\<forall>rv bs. return_value at = Some rv \<and> hexToUint8Array env rv = Inr bs
           \<longrightarrow> isl (action_ret_bin_to_json wabi (act_name a) bs)"
  shows "return_value (decodeTrace env at) = return_value at"
proof -
  let ?at1 = "decodeActionData env wabi (act_name a) at"
  have "return_value ?at1 = return_value at" by (simp add: decodeActionData_keeps)
  with assms(3) have "decodeReturnValue env wabi (act_name a) ?at1 = ?at1"
    by (intro decodeReturnValue_throws) simp
  with assms(1,2) show ?thesis
    by (simp add: decodeTrace_def decodeActionData_keeps)
qed

lemma decodeTrace_both_throw:
  assumes "act at = Some a" and "wasmAbiFor env (act_account a) = Some wabi"
    and "\<forall>d bs. act_data a = Some d \<and> hexToUint8Array env d = Inr bs
           \<longrightarrow> isl (action_args_bin_to_json wabi (act_name a) bs)"
    and "\<forall>rv bs. return_value at = Some rv \<and> hexToUint8Array env rv = Inr bs
           \<longrightarrow> isl (action_ret_bin_to_json wabi (act_name a) bs)"
  shows "decodeTrace env at = at"
  using assms
  by (simp add: decodeTrace_def decodeActionData_throws decodeReturnValue_throws)

lemma decodeTraces_other: "result_other (decodeTraces env r) = result_other r"
  by (simp add: decodeTraces_def split: option.split)

lemma decodeTraces_processed:
  assumes "processed r = Some p"
  shows "\<exists>p'. processed (decodeTraces env r) = Some p'
           \<and> processed_other p' = processed_other p
           \<and> action_traces p' =
               (case wasmAbiProvider env of
                  None \<Rightarrow> action_traces p
                | Some m \<Rightarrow> map_option (map (decodeTrace env)) (action_traces p))"
  using assms by (simp add: decodeTraces_def split: option.split)

lemma decodeTrace_no_provider: "wasmAbiProvider env = None \<Longrightarrow> decodeTrace env at = at"
  by (simp add: decodeTrace_def wasmAbiFor_def split: option.split)

lemma decodeTraces_traces:
  assumes "processed r = Some p" and "action_traces p = Some ats"
  shows "\<exists>p'. processed (decodeTraces env r) = Some p'
           \<and> processed_other p' = processed_other p
           \<and> action_traces p' = Some (map (decodeTrace env) ats)"
proof (cases "wasmAbiProvider env")
  case None
  then have "map (decodeTrace env) ats = ats"
    by (simp add: decodeTrace_no_provider map_idI)
  with decodeTraces_processed [OF assms(1), of env] None assms(2) show ?thesis by simp
next
  case (Some m)
  with decodeTraces_processed [OF assms(1), of env] assms(2) show ?thesis by simp
qed


lemma decodeTraces_map:
  assumes "processed r = Some p"
  shows "\<exists>p'. processed (decodeTraces env r) = Some p'
           \<and> processed_other p' = processed_other p
           \<and> action_traces p' = map_option (map (decodeTrace env)) (action_traces p)"
proof (cases "action_traces p")
  case None
  with assms show ?thesis by (simp add: decodeTraces_def split: option.split)
next
  case (Some ats)
  from decodeTraces_traces [OF assms Some, of env] Some show ?thesis by simp
qed

text \<open>
  C9. Let \<^verbatim>\<open>transact\<close> have assembled (and signed) its arguments and the node have
  answered the submission with a response \<open>r\<close>. Then \<^verbatim>\<open>transact\<close> returns
  successfully, with \<open>r\<close> after the decoding of its traces, whatever the decode hooks
  do. The decoding changes nothing outside the action traces, and keeps their number
  and each trace's other fields; a trace without \<open>act\<close>, or of an account that has no
  WASM ABI, is returned as it came. For a trace of an account with a WASM ABI: if the
  decoding of its data throws (the hook, or the conversion of the hex string), its data
  is the original one; if the decoding of its return value throws, its return value is
  the original one; if both throw, the whole trace is the original one.
\<close>

theorem transact_swallows_decode_errors:
  assumes prep: "transact env t (cfg\<lparr>broadcast := Some False\<rparr>) s = (Inr (Args pa), s1)"
    and bc: "broadcast cfg \<noteq> Some False"
    and sent: "send_transaction env pa (world s1) = (Inr r, w')"
  shows "transact env t cfg s =
           (Inr (Response (decodeTraces env r)),
            s1\<lparr>world := w', calls := calls s1 @ [SendTransaction]\<rparr>)
       \<and> result_other (decodeTraces env r) = result_other r
       \<and> (\<forall>p. processed r = Some p \<longrightarrow>
            (\<exists>p'. processed (decodeTraces env r) = Some p'
               \<and> processed_other p' = processed_other p
               \<and> (\<forall>ats. action_traces p = Some ats \<longrightarrow>
                    (\<exists>ats'. action_traces p' = Some ats' \<and> length ats' = length ats
                       \<and> (\<forall>i < length ats.
                            trace_other (ats' ! i) = trace_other (ats ! i)
                            \<and> (act (ats ! i) = None \<longrightarrow> ats' ! i = ats ! i)
                            \<and> (\<forall>a. act (ats ! i) = Some a \<longrightarrow>
                                 (wasmAbiFor env (act_account a) = None \<longrightarrow> ats' ! i = ats ! i)
                                 \<and> (\<forall>wabi. wasmAbiFor env (act_account a) = Some wabi \<longrightarrow>
                                      ((\<forall>d bs. act_data a = Some d
                                                \<and> hexToUint8Array env d = Inr bs
                                          \<longrightarrow> isl (action_args_bin_to_json wabi (act_name a) bs))
                                        \<longrightarrow> map_option act_data (act (ats' ! i))
                                              = Some (act_data a))
                                      \<and> ((\<forall>rv bs. return_value (ats ! i) = Some rv
                                                \<and> hexToUint8Array env rv = Inr bs
                                          \<longrightarrow> isl (action_ret_bin_to_json wabi (act_name a) bs))
                                        \<longrightarrow> return_value (ats' ! i) = return_value (ats ! i))
                                      \<and> ((\<forall>d bs. act_data a = Some d
                                                \<and> hexToUint8Array env d = Inr bs
                                          \<longrightarrow> isl (action_args_bin_to_json wabi (act_name a) bs))
                                        \<and> (\<forall>rv bs. return_value (ats ! i) = Some rv
                                                \<and> hexToUint8Array env rv = Inr bs
                                          \<longrightarrow> isl (action_ret_bin_to_json wabi (act_name a) bs))
                                        \<longrightarrow> ats' ! i = ats ! i))))))))"
  apply (intro conjI allI impI)
  subgoal
    using prep bc sent
    by (simp add: transact_broadcast [of env t cfg] post_def broadcastStep_def)
  subgoal by (rule decodeTraces_other)
  subgoal for p
    using decodeTraces_map [of r p env]
    apply clarsimp
    apply (intro conjI allI impI)
         apply (simp_all add: decodeTrace_other decodeTrace_unregistered
        decodeTrace_ret_throws)
    subgoal for p' ats i a wabi
      using decodeTrace_data_throws [of "ats ! i" a env wabi] by auto
    subgoal for p' ats i a wabi
      using decodeTrace_both_throw [of "ats ! i" a env wabi] by blast
    done
  done


theorem transact_swallows_decode_errors_witness:
  "broadcast demo_config \<noteq> Some False
   \<and> wasmAbiFor demo_env ''wasmtoken'' = Some demo_wasmAbi
   \<and> action_args_bin_to_json demo_wasmAbi ''transfer'' [] = Inl (Error ''unknown action'')
   \<and> action_ret_bin_to_json demo_wasmAbi ''transfer'' [] = Inl (Error ''unknown action'')
   \<and> fst (transact demo_env demo_transaction demo_config demo_api) = Inr (Response demo_response)"
proof -
  let ?run = "transact demo_env demo_transaction (demo_config\<lparr>broadcast := Some False\<rparr>) demo_api"
  have f: "fst ?run = Inr (Args demo_signed)" by code_simp
  obtain s1 where prep: "?run = (Inr (Args demo_signed), s1)"
    using f by (cases ?run) simp
  have sent: "send_transaction demo_env demo_signed (world s1) = (Inr demo_response, Suc (world s1))"
    by (simp add: demo_env_def)
  have bc: "broadcast demo_config \<noteq> Some False"
    by (simp add: demo_config_def no_config_def)
  have d: "decodeTraces demo_env demo_response = demo_response" by code_simp
  have w: "wasmAbiFor demo_env ''wasmtoken'' = Some demo_wasmAbi"
    by (simp add: wasmAbiFor_def demo_env_def)
  have h: "action_args_bin_to_json demo_wasmAbi ''transfer'' [] = Inl (Error ''unknown action'')"
    "action_ret_bin_to_json demo_wasmAbi ''transfer'' [] = Inl (Error ''unknown action'')"
    by (simp_all add: demo_wasmAbi_def)
  from transact_swallows_decode_errors [OF prep bc sent]
  have "transact demo_env demo_transaction demo_config demo_api =
           (Inr (Response (decodeTraces demo_env demo_response)),
            s1\<lparr>world := Suc (world s1), calls := calls s1 @ [SendTransaction]\<rparr>)"
    by (rule conjunct1)
  with d bc w h show ?thesis by simp
qed

section \<open>Compression and signing\<close>

text \<open>
  C1. \<^verbatim>\<open>transact\<close> sets the compression flag on the arguments it has assembled and
  then, when signing is requested, replaces those arguments by the answer of the
  signature provider. On the sample node, whose provider answers with the signatures and
  the two byte arrays, a compressed unsigned transaction carries the flag 1, and the same
  transaction signed carries no flag.
\<close>

theorem transact_signing_discards_compression:
  "fst (transact demo_env demo_transaction
          (demo_config\<lparr>compression := Some True, sign := Some False, broadcast := Some False\<rparr>)
          demo_api)
     = Inr (Args \<lparr>signatures = [], pta_compression = Some 1,
                  serializedTransaction = [1, 2, 3], serializedContextFreeData = None\<rparr>)
   \<and> fst (transact demo_env demo_transaction
          (demo_config\<lparr>compression := Some True, sign := Some True, broadcast := Some False\<rparr>)
          demo_api)
     = Inr (Args \<lparr>signatures = [''SIG_K1_demo''], pta_compression = None,
                  serializedTransaction = [1, 2, 3], serializedContextFreeData = None\<rparr>)
   \<and> calls (snd (transact demo_env demo_transaction
          (demo_config\<lparr>compression := Some True, sign := Some True, broadcast := Some False\<rparr>)
          demo_api))
     = [GetInfo, GetBlock (Num 97), GetRawAbi ''eosio.token'', GetAvailableKeys,
        GetRequiredKeys, Sign]"
  by code_simp

theorem transact_signing_discards_compression_witness:
  "map_sum id (\<lambda>out. case out of Args a \<Rightarrow> pta_compression a | Response r \<Rightarrow> None)
     (fst (transact demo_env demo_transaction
        (demo_config\<lparr>compression := Some True, sign := Some True, broadcast := Some False\<rparr>)
        demo_api))
   = Inr None"
  using transact_signing_discards_compression by simp

section \<open>The ABI cache\<close>

lemma message_set_message: "message (set_message m e) = m"
  by (cases e) simp_all

lemma getCachedAbi_hit:
  "cachedAbis s A = Some c \<Longrightarrow> getCachedAbi env A False s = (Inr c, s)"
  by (simp add: getCachedAbi_def)

lemma getCachedAbi_fetch:
  assumes "reload \<or> cachedAbis s A = None"
  shows "getCachedAbi env A reload s =
     (case getRawAbi env A (world s) of
        (Inl e, w') \<Rightarrow>
          (Inl (set_message (''fetching abi for '' @ A @ '': '' @ message e) e),
           s\<lparr>world := w', calls := calls s @ [GetRawAbi A]\<rparr>)
      | (Inr raw, w') \<Rightarrow>
          (case rawAbiToJson env raw of
             Inl e \<Rightarrow>
               (Inl (set_message (''fetching abi for '' @ A @ '': '' @ message e) e),
                s\<lparr>world := w', calls := calls s @ [GetRawAbi A]\<rparr>)
           | Inr a \<Rightarrow>
               (Inr \<lparr>rawAbi = raw, abi = a\<rparr>,
                s\<lparr>world := w', calls := calls s @ [GetRawAbi A],
                  cachedAbis := (cachedAbis s)(A \<mapsto> \<lparr>rawAbi = raw, abi = a\<rparr>)\<rparr>)))"
proof -
  from assms have "(if reload then None else cachedAbis s A) = None" by auto
  then show ?thesis
    by (simp add: getCachedAbi_def bindE_def catchE_def remote_def liftE_def returnE_def
        throwE_def split: prod.split sum.split)
qed

lemma getCachedAbi_dom:
  assumes "getCachedAbi env A reload s = (r, s')"
  shows "dom (cachedAbis s) \<subseteq> dom (cachedAbis s')"
proof (cases "reload \<or> cachedAbis s A = None")
  case True
  from assms show ?thesis
    unfolding getCachedAbi_fetch [OF True]
    by (auto split: prod.splits sum.splits)
next
  case False
  then obtain c where "cachedAbis s A = Some c" and "\<not> reload" by auto
  with assms show ?thesis by (simp add: getCachedAbi_hit)
qed

text \<open>
  C5. An entry that is cached is returned without a fetch. When the account has no
  entry and a call without reload succeeds, that call has made exactly one request to
  the ABI provider and has stored what it returns, and a second call without reload
  returns the same entry and changes nothing: it makes no request. A successful call
  with reload makes one request, and the entry it stores, in place of any earlier one,
  is the raw ABI just fetched together with its decoding. Whatever the flag and the
  outcome, every account that had an entry before a call has one after it.
\<close>

theorem getCachedAbi_fetches_once:
  "(cachedAbis s A = Some c0 \<longrightarrow> getCachedAbi env A False s = (Inr c0, s))
   \<and> (cachedAbis s A = None \<and> getCachedAbi env A False s = (Inr c, s1) \<longrightarrow>
      calls s1 = calls s @ [GetRawAbi A]
      \<and> cachedAbis s1 A = Some c
      \<and> getCachedAbi env A False s1 = (Inr c, s1))
   \<and> (getCachedAbi env A True s = (Inr c', s2) \<longrightarrow>
        calls s2 = calls s @ [GetRawAbi A]
        \<and> cachedAbis s2 = (cachedAbis s)(A \<mapsto> c')
        \<and> (\<exists>w'. getRawAbi env A (world s) = (Inr (rawAbi c'), w')
                  \<and> rawAbiToJson env (rawAbi c') = Inr (abi c')))
   \<and> (getCachedAbi env A reload s = (r, s') \<longrightarrow> dom (cachedAbis s) \<subseteq> dom (cachedAbis s'))"
proof (intro conjI impI)
  assume "cachedAbis s A = Some c0"
  then show "getCachedAbi env A False s = (Inr c0, s)" by (rule getCachedAbi_hit)
next
  assume h: "cachedAbis s A = None \<and> getCachedAbi env A False s = (Inr c, s1)"
  then have miss: "False \<or> cachedAbis s A = None" by simp
  from h have run: "getCachedAbi env A False s = (Inr c, s1)" by simp
  from run show "calls s1 = calls s @ [GetRawAbi A]"
    unfolding getCachedAbi_fetch [OF miss] by (auto split: prod.splits sum.splits)
  from run show stored: "cachedAbis s1 A = Some c"
    unfolding getCachedAbi_fetch [OF miss] by (auto split: prod.splits sum.splits)
  then show "getCachedAbi env A False s1 = (Inr c, s1)" by (rule getCachedAbi_hit)
next
  assume run: "getCachedAbi env A True s = (Inr c', s2)"
  have rl: "True \<or> cachedAbis s A = None" by simp
  from run show "calls s2 = calls s @ [GetRawAbi A]"
    unfolding getCachedAbi_fetch [OF rl] by (auto split: prod.splits sum.splits)
  from run show "cachedAbis s2 = (cachedAbis s)(A \<mapsto> c')"
    unfolding getCachedAbi_fetch [OF rl] by (auto split: prod.splits sum.splits)
  from run show "\<exists>w'. getRawAbi env A (world s) = (Inr (rawAbi c'), w')
                  \<and> rawAbiToJson env (rawAbi c') = Inr (abi c')"
    unfolding getCachedAbi_fetch [OF rl] by (auto split: prod.splits sum.splits)
next
  assume "getCachedAbi env A reload s = (r, s')"
  then show "dom (cachedAbis s) \<subseteq> dom (cachedAbis s')" by (rule getCachedAbi_dom)
qed

lemma demo_rawAbi_old_decodes: "rawAbiToJson demo_env demo_rawAbi_old = Inr (abi demo_cached_old)"
  by code_simp

lemma demo_rawAbi_decodes: "rawAbiToJson demo_env demo_rawAbi = Inr (abi demo_cached)"
  by code_simp

theorem getCachedAbi_fetches_once_witness:
  "cachedAbis demo_api ''eosio.token'' = None
   \<and> getCachedAbi demo_env ''eosio.token'' False demo_api = (Inr demo_cached_old, demo_api_cached)
   \<and> calls demo_api_cached = calls demo_api @ [GetRawAbi ''eosio.token'']
   \<and> getCachedAbi demo_env ''eosio.token'' False demo_api_cached
       = (Inr demo_cached_old, demo_api_cached)
   \<and> getCachedAbi demo_env ''eosio.token'' True demo_api_cached
       = (Inr demo_cached,
          demo_api_cached\<lparr>world := 2,
            calls := [GetRawAbi ''eosio.token'', GetRawAbi ''eosio.token''],
            cachedAbis := (cachedAbis demo_api_cached)(''eosio.token'' \<mapsto> demo_cached)\<rparr>)"
proof -
  let ?A = "''eosio.token''"
  let ?s2 = "demo_api_cached\<lparr>world := 2,
            calls := [GetRawAbi ''eosio.token'', GetRawAbi ''eosio.token''],
            cachedAbis := (cachedAbis demo_api_cached)(''eosio.token'' \<mapsto> demo_cached)\<rparr>"
  have miss: "cachedAbis demo_api ?A = None" by (simp add: demo_api_def)
  then have need: "False \<or> cachedAbis demo_api ?A = None" by simp
  have raw1: "getRawAbi demo_env ?A (world demo_api) = (Inr demo_rawAbi_old, 1)"
    by (simp add: demo_env_def demo_api_def)
  have run1: "getCachedAbi demo_env ?A False demo_api = (Inr demo_cached_old, demo_api_cached)"
    unfolding getCachedAbi_fetch [OF need] raw1
    by (simp add: demo_rawAbi_old_decodes demo_api_cached_def demo_cached_old_def demo_api_def)
  have rl: "True \<or> cachedAbis demo_api_cached ?A = None" by simp
  have raw2: "getRawAbi demo_env ?A (world demo_api_cached) = (Inr demo_rawAbi, 2)"
    by (simp add: demo_env_def demo_api_cached_def)
  have run2: "getCachedAbi demo_env ?A True demo_api_cached = (Inr demo_cached, ?s2)"
    unfolding getCachedAbi_fetch [OF rl] raw2
    by (simp add: demo_rawAbi_decodes demo_api_cached_def demo_cached_def)
  note first = getCachedAbi_fetches_once
    [where s = demo_api and A = ?A and env = demo_env and c = demo_cached_old
       and ?s1.0 = demo_api_cached]
  from first miss run1
  have a: "calls demo_api_cached = calls demo_api @ [GetRawAbi ?A]"
    and b: "getCachedAbi demo_env ?A False demo_api_cached = (Inr demo_cached_old, demo_api_cached)"
    by blast+
  from miss run1 a b run2 show ?thesis by blast
qed

text \<open>
  C6. When \<^verbatim>\<open>getCachedAbi\<close> has to fetch (reload is set, or the account has no entry)
  and the fetch fails, or the fetched bytes fail to decode, the error thrown is the
  original one with its message prefixed by \<^verbatim>\<open>fetching abi for A: \<close>, where \<open>A\<close> is the
  account, and the cache is left as it was: nothing is stored for \<open>A\<close>, and an entry that
  was there stays.
\<close>

theorem getCachedAbi_failure:
  assumes need: "reload \<or> cachedAbis s A = None"
    and fails: "getRawAbi env A (world s) = (Inl e, w')
                \<or> (\<exists>raw. getRawAbi env A (world s) = (Inr raw, w') \<and> rawAbiToJson env raw = Inl e)"
  shows "\<exists>e'. getCachedAbi env A reload s
                = (Inl e', s\<lparr>world := w', calls := calls s @ [GetRawAbi A]\<rparr>)
           \<and> message e' = ''fetching abi for '' @ A @ '': '' @ message e
           \<and> cachedAbis (snd (getCachedAbi env A reload s)) = cachedAbis s"
  using fails unfolding getCachedAbi_fetch [OF need]
  by (auto simp add: message_set_message)


theorem getCachedAbi_failure_witness:
  "cachedAbis demo_api ''ghost'' = None
   \<and> getRawAbi demo_env ''ghost'' (world demo_api) = (Inl (Error ''unknown key''), 1)
   \<and> (\<exists>e'. getCachedAbi demo_env ''ghost'' False demo_api
               = (Inl e', demo_api\<lparr>world := 1, calls := calls demo_api @ [GetRawAbi ''ghost'']\<rparr>)
          \<and> message e' = ''fetching abi for ghost: unknown key''
          \<and> cachedAbis (snd (getCachedAbi demo_env ''ghost'' False demo_api))
              = cachedAbis demo_api)"
proof -
  have need: "False \<or> cachedAbis demo_api ''ghost'' = None" by (simp add: demo_api_def)
  have fails: "getRawAbi demo_env ''ghost'' (world demo_api) = (Inl (Error ''unknown key''), 1)
     \<or> (\<exists>raw. getRawAbi demo_env ''ghost'' (world demo_api) = (Inr raw, 1)
               \<and> rawAbiToJson demo_env raw = Inl (Error ''unknown key''))"
    by (simp add: demo_env_def demo_api_def)
  from getCachedAbi_failure [OF need fails] need fails show ?thesis
    by (simp add: demo_env_def demo_api_def)
qed

section \<open>Context-free data\<close>

lemma varuint32_not_empty: "varuint32 v \<noteq> []"
  by (subst varuint32.simps) simp

lemma array_pushBytes: "array (pushBytes d b) = array b @ varuint32 (of_nat (length d)) @ d"
  by (simp add: pushBytes_def pushVaruint32_def pushArray_def)

lemma array_fold_pushBytes:
  "array (fold pushBytes ds b)
     = array b @ concat (map (\<lambda>d. varuint32 (of_nat (length d)) @ d) ds)"
  by (induction ds arbitrary: b) (simp_all add: array_pushBytes)

text \<open>
  C8. \<^verbatim>\<open>serializeContextFreeData\<close> returns \<^verbatim>\<open>null\<close> for a missing argument and for the
  empty list. For a non-empty list of blobs it returns the number of blobs as a
  varuint32, followed by each blob as its length as a varuint32 and its bytes. It never
  returns an empty buffer, so the absence of context-free data cannot be taken for a
  block of length zero.
\<close>

theorem serializeContextFreeData_encoding:
  "serializeContextFreeData None = None
   \<and> serializeContextFreeData (Some []) = None
   \<and> (ds \<noteq> [] \<longrightarrow>
        serializeContextFreeData (Some ds)
          = Some (varuint32 (of_nat (length ds))
                  @ concat (map (\<lambda>d. varuint32 (of_nat (length d)) @ d) ds)))
   \<and> serializeContextFreeData x \<noteq> Some []"
proof (intro conjI impI)
  show "serializeContextFreeData None = None" by (simp add: serializeContextFreeData_def)
  show "serializeContextFreeData (Some []) = None" by (simp add: serializeContextFreeData_def)
  show nonempty: "serializeContextFreeData (Some ds)
          = Some (varuint32 (of_nat (length ds))
                  @ concat (map (\<lambda>d. varuint32 (of_nat (length d)) @ d) ds))"
    if "ds \<noteq> []" for ds
    using that
    by (simp add: serializeContextFreeData_def asUint8Array_def array_fold_pushBytes
        pushVaruint32_def pushArray_def newSerialBuffer_def)
  show "serializeContextFreeData x \<noteq> Some []"
  proof (cases x)
    case None
    then show ?thesis by (simp add: serializeContextFreeData_def)
  next
    case (Some ds)
    show ?thesis
    proof (cases "ds = []")
      case True
      with Some show ?thesis by (simp add: serializeContextFreeData_def)
    next
      case False
      with Some nonempty [OF False] show ?thesis by (simp add: varuint32_not_empty)
    qed
  qed
qed

lemma varuint32_1: "varuint32 1 = [1]" by code_simp
lemma varuint32_4: "varuint32 4 = [4]" by code_simp

theorem serializeContextFreeData_encoding_witness:
  "[[0x74, 0x65, 0x73, 0x74]] \<noteq> ([] :: bytes list)
   \<and> serializeContextFreeData (Some [[0x74, 0x65, 0x73, 0x74]])
       = Some [1, 4, 0x74, 0x65, 0x73, 0x74]
   \<and> serializeContextFreeData (Some [[]]) = Some [1, 0]"
proof -
  have ne: "[[0x74, 0x65, 0x73, 0x74]] \<noteq> ([] :: bytes list)" by simp
  have ne2: "[[]] \<noteq> ([] :: bytes list)" by simp
  have v0: "varuint32 0 = [0]" by code_simp
  from serializeContextFreeData_encoding [where ds = "[[0x74, 0x65, 0x73, 0x74]]"] ne
  have a: "serializeContextFreeData (Some [[0x74, 0x65, 0x73, 0x74]])
       = Some [1, 4, 0x74, 0x65, 0x73, 0x74]"
    by (simp add: varuint32_1 varuint32_4)
  from serializeContextFreeData_encoding [where ds = "[[]]"] ne2
  have b: "serializeContextFreeData (Some [[]]) = Some [1, 0]"
    by (simp add: varuint32_1 v0)
  from ne a b show ?thesis by simp
qed

section \<open>The version string of an ABI\<close>

text \<open>
  Facts about the framing of a raw ABI: a varuint32 and a string that were written are
  read back, a raw ABI is rejected when its version string cannot be read or is not
  supported, and so is a document whose version is not supported. The encoding of the
  rest of an ABI is a parameter here (\<open>abi_body_decode\<close>, \<open>abi_body_encode\<close>), and
  nothing is proved about it.
\<close>

text \<open>The bits of the two constants of the varint, and what a byte of it carries.\<close>

lemma bit_int_7f: "bit (0x7f :: int) n \<longleftrightarrow> n < 7"
proof -
  have "(0x7f :: int) = mask 7" by (simp add: mask_eq_exp_minus_1)
  then show ?thesis by (simp only: bit_mask_iff) simp
qed

lemma bit_int_80: "bit (0x80 :: int) n \<longleftrightarrow> n = 7"
proof -
  have "(0x80 :: int) = 2 ^ 7" by simp
  then show ?thesis by (simp only: bit_exp_iff) auto
qed

lemma drop_bit7_zero_high: "drop_bit 7 (v :: 32 word) = 0 \<Longrightarrow> 7 \<le> n \<Longrightarrow> \<not> bit v n"
proof
  assume z: "drop_bit 7 v = 0" and n: "7 \<le> n" and b: "bit v n"
  have "bit (drop_bit 7 v) (n - 7)" using b n by (simp add: bit_drop_bit_eq)
  with z show False by simp
qed

lemma last_byte_no_continuation: "drop_bit 7 (v :: 32 word) = 0 \<Longrightarrow> (ucast v :: 8 word) AND 0x80 = 0"
  by (rule bit_word_eqI) (auto simp add: bit_simps bit_int_80 dest: drop_bit7_zero_high)

lemma last_byte_value: "drop_bit 7 (v :: 32 word) = 0 \<Longrightarrow> ucast ((ucast v :: 8 word) AND 0x7f) = v"
proof (rule bit_word_eqI)
  fix n assume z: "drop_bit 7 v = 0" and "n < LENGTH(32)"
  show "bit (ucast ((ucast v :: 8 word) AND 0x7f) :: 32 word) n = bit v n"
  proof (cases "n < 7")
    case True
    then show ?thesis by (simp add: bit_simps bit_int_7f)
  next
    case False
    then have "\<not> bit v n" using drop_bit7_zero_high [OF z, of n] by simp
    with False show ?thesis by (simp add: bit_simps bit_int_7f)
  qed
qed

lemma more_byte_continuation: "(0x80 OR ucast ((v :: 32 word) AND 0x7f) :: 8 word) AND 0x80 \<noteq> 0"
proof
  assume "(0x80 OR ucast (v AND 0x7f) :: 8 word) AND 0x80 = 0"
  then have "bit ((0x80 OR ucast (v AND 0x7f) :: 8 word) AND 0x80) 7 = bit (0 :: 8 word) 7" by simp
  then show False by (simp add: bit_simps bit_int_80)
qed

lemma more_byte_value: "ucast ((0x80 OR ucast ((v :: 32 word) AND 0x7f) :: 8 word) AND 0x7f) = v AND 0x7f"
  by (rule bit_word_eqI) (auto simp add: bit_simps bit_int_7f bit_int_80)

lemma push_bit_split7: "push_bit sh ((v :: 32 word) AND 0x7f) OR push_bit (sh + 7) (drop_bit 7 v) = push_bit sh v"
proof (rule bit_word_eqI)
  fix n assume "n < LENGTH(32)"
  show "bit (push_bit sh (v AND 0x7f) OR push_bit (sh + 7) (drop_bit 7 v)) n = bit (push_bit sh v) n"
  proof (cases "sh + 7 \<le> n")
    case True
    then have "7 + (n - (sh + 7)) = n - sh" by simp
    with True show ?thesis by (auto simp add: bit_simps bit_int_7f)
  next
    case False
    then show ?thesis by (auto simp add: bit_simps bit_int_7f)
  qed
qed


lemma varuint32_last: "drop_bit 7 v = 0 \<Longrightarrow> varuint32 v = [ucast v]"
  by (subst varuint32.simps) simp

lemma varuint32_more:
  "drop_bit 7 v \<noteq> 0 \<Longrightarrow>
   varuint32 v = (0x80 OR ucast (v AND 0x7f)) # varuint32 (drop_bit 7 v)"
  by (subst varuint32.simps) simp

lemma getVaruint32_from_varuint32:
  "sh < 32 \<Longrightarrow> unat v < 2 ^ (32 - sh) \<Longrightarrow>
   getVaruint32_from (varuint32 v @ rest) acc sh = Some (acc OR push_bit sh v, rest)"
proof (induction v arbitrary: acc sh rule: varuint32.induct)
  case (1 v)
  show ?case
  proof (cases "drop_bit 7 v = 0")
    case True
    with "1.prems" show ?thesis
      by (simp add: varuint32_last last_byte_no_continuation last_byte_value Let_def)
  next
    case False
    have d: "unat (drop_bit 7 v) = unat v div 2 ^ 7"
      by (simp add: drop_bit_eq_div unat_div)
    from False have "unat (drop_bit 7 v) \<noteq> 0" by (simp add: unat_eq_0)
    with d have ge: "2 ^ 7 \<le> unat v" by (simp add: div_eq_0_iff)
    with "1.prems"(2) have "(2::nat) ^ 7 < 2 ^ (32 - sh)" by simp
    then have "7 < 32 - sh" by (simp only: power_strict_increasing_iff) 
    then have sh': "sh + 7 < 32" by simp
    then have "32 - sh = 7 + (32 - (sh + 7))" by simp
    then have "(2::nat) ^ (32 - sh) = 2 ^ 7 * 2 ^ (32 - (sh + 7))"
      by (simp only: power_add)
    with "1.prems"(2) have b': "unat (drop_bit 7 v) < 2 ^ (32 - (sh + 7))"
      unfolding d by (simp add: less_mult_imp_div_less mult.commute)
    have IH: "getVaruint32_from (varuint32 (drop_bit 7 v) @ rest) acc' (sh + 7)
                = Some (acc' OR push_bit (sh + 7) (drop_bit 7 v), rest)" for acc'
      by (rule "1.IH" [OF False sh' b'])
    have comb: "(acc OR push_bit sh (v AND 0x7f)) OR push_bit (sh + 7) (drop_bit 7 v)
            = acc OR push_bit sh v"
      by (simp only: or.assoc push_bit_split7)
    have step: "getVaruint32_from (varuint32 v @ rest) acc sh
            = getVaruint32_from (varuint32 (drop_bit 7 v) @ rest)
                (acc OR push_bit sh (v AND 0x7f)) (sh + 7)"
      using "1.prems"(1) by (simp add: varuint32_more [OF False] more_byte_continuation more_byte_value Let_def)
    show ?thesis by (simp only: step IH comb)
  qed
qed

lemma getVaruint32_from_encoded:
  "getVaruint32_from (varuint32 v @ rest) 0 0 = Some (v, rest)"
proof -
  have "unat v < 2 ^ (32 - 0)" using unsigned_less [of v] by simp
  from getVaruint32_from_varuint32 [OF _ this, of rest 0] show ?thesis by simp
qed


lemma textDecode_textEncode: "textDecode (textEncode s) = s"
proof -
  have "char_of (unat (of_nat (of_char c) :: 8 word)) = c" for c :: char
  proof -
    have "unat (of_nat (of_char c) :: 8 word) = (of_char c :: nat) mod 256"
      by (simp add: unat_of_nat)
    then show ?thesis by simp
  qed
  then show ?thesis by (simp add: textDecode_def textEncode_def map_idI)
qed

lemma length_textEncode: "length (textEncode s) = length s"
  by (simp add: textEncode_def)

lemma length_textDecode: "length (textDecode bs) = length bs"
  by (simp add: textDecode_def)

lemma getString_array:
  assumes "getString b = Inr (v, b')"
  shows "array b' = array b \<and> length v < 2 ^ 32"
proof -
  from assms obtain len b1 bs where gv: "getVaruint32 b = Inr (len, b1)"
    and gb: "getUint8Array (unat len) b1 = Inr (bs, b')"
    and v: "v = textDecode bs"
    by (auto simp add: getString_def getBytes_def split: sum.splits prod.splits)
  from gv have a1: "array b1 = array b"
    by (auto simp add: getVaruint32_def split: option.splits prod.splits)
  from gb have a2: "array b' = array b1" and l: "length bs = unat len"
    by (auto simp add: getUint8Array_def split: if_splits)
  have "unat len < 2 ^ 32" using unsigned_less [of len] by simp
  with a1 a2 l v show ?thesis by (simp add: length_textDecode)
qed

lemma getString_encoded:
  assumes "length s < 2 ^ 32"
  shows "getString \<lparr>array = varuint32 (of_nat (length s)) @ textEncode s @ rest, readPos = 0\<rparr>
           = Inr (s, \<lparr>array = varuint32 (of_nat (length s)) @ textEncode s @ rest,
                      readPos = length (varuint32 (of_nat (length s))) + length s\<rparr>)"
proof -
  let ?n = "of_nat (length s) :: 32 word"
  let ?arr = "varuint32 ?n @ textEncode s @ rest"
  have n: "unat ?n = length s" using assms by (simp add: unat_of_nat)
  have gv: "getVaruint32 \<lparr>array = ?arr, readPos = 0\<rparr>
              = Inr (?n, \<lparr>array = ?arr, readPos = length (varuint32 ?n)\<rparr>)"
    by (simp add: getVaruint32_def getVaruint32_from_encoded)
  have gu: "getUint8Array (unat ?n) \<lparr>array = ?arr, readPos = length (varuint32 ?n)\<rparr>
              = Inr (textEncode s,
                     \<lparr>array = ?arr, readPos = length (varuint32 ?n) + length s\<rparr>)"
    by (simp add: getUint8Array_def n length_textEncode)
  show ?thesis
    by (simp add: getString_def getBytes_def gv gu textDecode_textEncode)
qed


lemma restartRead_after_getString:
  assumes "getString (newSerialBuffer raw) = Inr (v, b')"
  shows "restartRead b' = newSerialBuffer raw"
proof -
  from getString_array [OF assms] have "array b' = raw" by (simp add: newSerialBuffer_def)
  then show ?thesis by (cases b') (simp add: restartRead_def newSerialBuffer_def)
qed

lemma rawAbiToJson_Inr:
  assumes "rawAbiToJson env raw = Inr j"
  shows "\<exists>b'. getString (newSerialBuffer raw) = Inr (abi_version j, b')
           \<and> supportedAbiVersion env (abi_version j)
           \<and> abi_body_decode env (drop (readPos b') raw) = Inr (abi_actions j, abi_rest j)
           \<and> length (abi_version j) < 2 ^ 32"
proof (cases "getString (newSerialBuffer raw)")
  case (Inl e)
  with assms show ?thesis by (simp add: rawAbiToJson_def)
next
  case (Inr p)
  obtain v b' where p: "p = (v, b')" by (cases p)
  note gs = Inr [unfolded p]
  from getString_array [OF gs] have arr: "array b' = raw" and len: "length v < 2 ^ 32"
    by (simp_all add: newSerialBuffer_def)
  note rr = restartRead_after_getString [OF gs]
  from assms gs have sup: "supportedAbiVersion env v"
    by (simp add: rawAbiToJson_def split: if_splits)
  with assms gs have "abi_def_deserialize env (newSerialBuffer raw) = Inr j"
    by (simp add: rawAbiToJson_def rr)
  with gs arr have "abi_version j = v
      \<and> abi_body_decode env (drop (readPos b') raw) = Inr (abi_actions j, abi_rest j)"
    by (auto simp add: abi_def_deserialize_def split: sum.splits prod.splits)
  with gs sup len show ?thesis by auto
qed

lemma abi_def_serialize_array:
  assumes "abi_body_encode env (abi_actions j, abi_rest j) = Inr body"
  shows "abi_def_serialize env (newSerialBuffer []) j
           = Inr \<lparr>array = varuint32 (of_nat (length (abi_version j)))
                           @ textEncode (abi_version j) @ body,
                  readPos = 0\<rparr>"
  using assms
  by (simp add: abi_def_serialize_def pushArray_def pushString_def pushBytes_def
      pushVaruint32_def newSerialBuffer_def length_textEncode)

lemma jsonToRawAbi_encoded:
  assumes "abi_body_encode env (abi_actions j, abi_rest j) = Inr body"
    and "length (abi_version j) < 2 ^ 32"
  shows "jsonToRawAbi env j =
     (if supportedAbiVersion env (abi_version j)
      then Inr (varuint32 (of_nat (length (abi_version j))) @ textEncode (abi_version j) @ body)
      else Inl (Error ''Unsupported abi version''))"
  by (simp add: jsonToRawAbi_def abi_def_serialize_array [OF assms(1)]
      getString_encoded [OF assms(2)] asUint8Array_def)

lemma rawAbiToJson_encoded:
  assumes "length v < 2 ^ 32" and "supportedAbiVersion env v"
    and "abi_body_decode env body = Inr (acts, rest)"
  shows "rawAbiToJson env (varuint32 (of_nat (length v)) @ textEncode v @ body)
           = Inr \<lparr>abi_version = v, abi_actions = acts, abi_rest = rest\<rparr>"
  using assms(2,3)
  by (simp add: rawAbiToJson_def abi_def_deserialize_def newSerialBuffer_def restartRead_def
      getString_encoded [OF assms(1)] length_textEncode)

lemma rawAbiToJson_rejects:
  "(getString (newSerialBuffer raw) = Inl e \<longrightarrow> rawAbiToJson env raw = Inl e)
   \<and> (getString (newSerialBuffer raw) = Inr (v, b') \<and> \<not> supportedAbiVersion env v \<longrightarrow>
        rawAbiToJson env raw = Inl (Error ''Unsupported abi version''))"
  by (simp add: rawAbiToJson_def)

lemma jsonToRawAbi_rejects:
  assumes "\<not> supportedAbiVersion env (abi_version j)" and "length (abi_version j) < 2 ^ 32"
  shows "\<exists>e. jsonToRawAbi env j = Inl e"
proof (cases "abi_body_encode env (abi_actions j, abi_rest j)")
  case (Inl e0)
  then show ?thesis by (simp add: jsonToRawAbi_def abi_def_serialize_def)
next
  case (Inr body)
  from assms jsonToRawAbi_encoded [OF Inr] show ?thesis by simp
qed

end
